theory Spec2Isabelle
  imports Complex_Main "HOL-Library.Monad_Syntax"
begin

section \<open>JSON values and the Python operations the code applies to them\<close>

text \<open>
  The three programs exchange JSON documents and keep what \<open>json.load\<close> returns in
  dynamically typed attributes. A parsed document is a value of \<open>json\<close>; a Python
  dict is an association list read with \<open>map_of\<close> (each key held once, as a parsed
  dict holds it). Python floats and ints are both \<open>JNum\<close> over the reals: no rounding
  is modelled.
\<close>

datatype json =
    JNull
  | JBool bool
  | JNum real
  | JStr string
  | JArr "json list"
  | JObj "(string \<times> json) list"

text \<open>\<open>d.get(k, default)\<close> on a dict.\<close>

definition dict_get :: "(string \<times> json) list \<Rightarrow> string \<Rightarrow> json \<Rightarrow> json" where
  "dict_get d k dflt = (case map_of d k of None \<Rightarrow> dflt | Some v \<Rightarrow> v)"

text \<open>
  \<open>x.get(k, default)\<close> on any parsed value: only a dict has \<open>get\<close>; on every other
  value Python raises AttributeError (\<open>None\<close> here).
\<close>

fun py_get :: "json \<Rightarrow> string \<Rightarrow> json \<Rightarrow> json option" where
  "py_get (JObj d) k dflt = Some (dict_get d k dflt)"
| "py_get _ k dflt = None"

text \<open>\<open>x[k]\<close> with a string key: KeyError on a dict without the key, TypeError elsewhere.\<close>

fun py_item :: "json \<Rightarrow> string \<Rightarrow> json option" where
  "py_item (JObj d) k = map_of d k"
| "py_item _ k = None"

text \<open>Python's substring test \<open>needle in haystack\<close> on two strings.\<close>

fun is_substring :: "string \<Rightarrow> string \<Rightarrow> bool" where
  "is_substring needle [] = (needle = [])"
| "is_substring needle (c # cs) =
     (take (length needle) (c # cs) = needle \<or> is_substring needle cs)"

text \<open>
  \<open>needle in x\<close> for a string needle: substring of a string, element of a list, key of
  a dict; TypeError (\<open>None\<close>) on a number, a bool or null.
\<close>

fun py_in :: "string \<Rightarrow> json \<Rightarrow> bool option" where
  "py_in needle (JStr s) = Some (is_substring needle s)"
| "py_in needle (JArr xs) = Some (JStr needle \<in> set xs)"
| "py_in needle (JObj d) = Some (map_of d needle \<noteq> None)"
| "py_in needle _ = None"

text \<open>
  The slice \<open>x[:n]\<close>: the first \<open>n\<close> elements of a list, the first \<open>n\<close> characters of a
  string (which \<open>extend\<close> then appends one by one); TypeError on anything else.
\<close>

fun py_slice :: "nat \<Rightarrow> json \<Rightarrow> json list option" where
  "py_slice n (JArr xs) = Some (take n xs)"
| "py_slice n (JStr s) = Some (map (\<lambda>c. JStr [c]) (take n s))"
| "py_slice n _ = None"

text \<open>Python truthiness of a parsed value.\<close>

fun truthy :: "json \<Rightarrow> bool" where
  "truthy JNull = False"
| "truthy (JBool b) = b"
| "truthy (JNum r) = (r \<noteq> 0)"
| "truthy (JStr s) = (s \<noteq> [])"
| "truthy (JArr xs) = (xs \<noteq> [])"
| "truthy (JObj d) = (d \<noteq> [])"


section \<open>Geometry configuration model (readDualArmSelfCollisionModelFromJson.py)\<close>

text \<open>
  The classes \<open>BallModel\<close>, \<open>CapsuleModel\<close>, \<open>LozengeModelCo\<close> and
  \<open>DualArmColliderConfiguration\<close>. The attributes hold whatever the document holds, so
  they are \<open>json\<close>; \<open>dh\<close> is only ever assigned a list literal. The classes share the
  attribute names \<open>offset\<close>, \<open>radius\<close>, \<open>start\<close>, \<open>type\<close>; the field names carry the
  class as a prefix.
\<close>

definition RobotType_Elfin :: int where "RobotType_Elfin = 0"
definition RobotType_UR :: int where "RobotType_UR = 1"
definition RobotType_DualArm :: int where "RobotType_DualArm = 2"

record BallModel =
  ball_offset :: json
  ball_radius :: json
  ball_type :: json

record CapsuleModel =
  cap_start :: json
  cap_end :: json
  cap_radius :: json
  cap_type :: json

record LozengeModelCo =
  loz_ref2local_frame :: json
  loz_offset :: json
  loz_geometry :: json
  loz_type :: json

record DualArmColliderConfiguration =
  dh :: "json list"
  robType :: int
  platform :: LozengeModelCo
  truck :: LozengeModelCo
  head :: LozengeModelCo
  L_base :: CapsuleModel
  L_lowerArm :: CapsuleModel
  L_elbow :: CapsuleModel
  L_upperArm :: CapsuleModel
  L_wrist :: BallModel
  R_base :: CapsuleModel
  R_lowerArm :: CapsuleModel
  R_elbow :: CapsuleModel
  R_upperArm :: CapsuleModel
  R_wrist :: BallModel

text \<open>The constructors \<open>__init__\<close>.\<close>

definition new_BallModel :: BallModel where
  "new_BallModel = \<lparr>ball_offset = JArr [], ball_radius = JNum 0, ball_type = JStr []\<rparr>"

definition new_CapsuleModel :: CapsuleModel where
  "new_CapsuleModel =
     \<lparr>cap_start = JArr [], cap_end = JArr [], cap_radius = JNum 0, cap_type = JStr []\<rparr>"

definition new_LozengeModelCo :: LozengeModelCo where
  "new_LozengeModelCo =
     \<lparr>loz_ref2local_frame = JArr [], loz_offset = JArr [], loz_geometry = JArr [],
      loz_type = JStr []\<rparr>"

definition new_DualArmColliderConfiguration :: DualArmColliderConfiguration where
  "new_DualArmColliderConfiguration =
     \<lparr>dh = [], robType = RobotType_DualArm,
      platform = new_LozengeModelCo, truck = new_LozengeModelCo, head = new_LozengeModelCo,
      L_base = new_CapsuleModel, L_lowerArm = new_CapsuleModel, L_elbow = new_CapsuleModel,
      L_upperArm = new_CapsuleModel, L_wrist = new_BallModel,
      R_base = new_CapsuleModel, R_lowerArm = new_CapsuleModel, R_elbow = new_CapsuleModel,
      R_upperArm = new_CapsuleModel, R_wrist = new_BallModel\<rparr>"


section \<open>Configuration loader\<close>

text \<open>
  What \<open>open(file_path)\<close> followed by \<open>json.load\<close> gives: the file is missing
  (FileNotFoundError), it cannot be opened for another reason, its text is not JSON, or
  it parses to a value.
\<close>

datatype file_read = FileNotFound | OpenFails | NotJson | Parsed json

text \<open>
  The two errors the loader raises, both RuntimeError: "cannot open file" for
  FileNotFoundError, "JSON parse error" for every other exception.
\<close>

datatype load_error = CannotOpenFile | JsonParseError

text \<open>
  One section of the document. \<open>section_data = json_data.get(key, {})\<close> is followed by
  one \<open>section_data.get\<close> per attribute; the first of them raises when the section is not
  a dict, before any attribute of that section is assigned, and none raises when it is.
\<close>

fun read_lozenge :: "json \<Rightarrow> LozengeModelCo option" where
  "read_lozenge (JObj d) =
     Some \<lparr>loz_ref2local_frame = dict_get d ''ref2local_frame'' (JArr []),
           loz_offset = dict_get d ''offset'' (JArr []),
           loz_geometry = dict_get d ''geometry'' (JArr []),
           loz_type = dict_get d ''type'' (JStr [])\<rparr>"
| "read_lozenge _ = None"

fun read_capsule :: "json \<Rightarrow> CapsuleModel option" where
  "read_capsule (JObj d) =
     Some \<lparr>cap_start = dict_get d ''start'' (JArr []),
           cap_end = dict_get d ''end'' (JArr []),
           cap_radius = dict_get d ''radius'' (JNum 0),
           cap_type = dict_get d ''type'' (JStr [])\<rparr>"
| "read_capsule _ = None"

fun read_ball :: "json \<Rightarrow> BallModel option" where
  "read_ball (JObj d) =
     Some \<lparr>ball_offset = dict_get d ''offset'' (JArr []),
           ball_radius = dict_get d ''radius'' (JNum 0),
           ball_type = dict_get d ''type'' (JStr [])\<rparr>"
| "read_ball _ = None"

text \<open>
  A step of the loader body on the top-level dict: it returns whether it completed and
  the configuration as it stands then, since the object is mutated in place and an
  exception leaves the earlier assignments behind.
\<close>

type_synonym load_step =
  "(string \<times> json) list \<Rightarrow> DualArmColliderConfiguration \<Rightarrow> bool \<times> DualArmColliderConfiguration"

text \<open>Robot type and DH parameters (lines 100 to 111).\<close>

definition read_rob_type :: load_step where
  "read_rob_type jd c =
     (case py_in ''dual_arm'' (dict_get jd ''RobType'' (JStr [])) of
        None \<Rightarrow> (False, c)
      | Some False \<Rightarrow> (True, c)
      | Some True \<Rightarrow>
          (let c1 = c\<lparr>robType := RobotType_DualArm\<rparr> in
           case dict_get jd ''DH'' (JObj []) of
             JObj dd \<Rightarrow>
               (True, c1\<lparr>dh := [dict_get dd ''d1'' (JNum 0), dict_get dd ''d4'' (JNum 0),
                               dict_get dd ''d6'' (JNum 0), dict_get dd ''a2'' (JNum 0)]\<rparr>)
           | _ \<Rightarrow> (False, c1)))"

definition lozenge_step ::
  "string \<Rightarrow> (LozengeModelCo \<Rightarrow> DualArmColliderConfiguration \<Rightarrow> DualArmColliderConfiguration)
     \<Rightarrow> load_step" where
  "lozenge_step key assign jd c =
     (case read_lozenge (dict_get jd key (JObj [])) of
        None \<Rightarrow> (False, c) | Some m \<Rightarrow> (True, assign m c))"

definition capsule_step ::
  "string \<Rightarrow> (CapsuleModel \<Rightarrow> DualArmColliderConfiguration \<Rightarrow> DualArmColliderConfiguration)
     \<Rightarrow> load_step" where
  "capsule_step key assign jd c =
     (case read_capsule (dict_get jd key (JObj [])) of
        None \<Rightarrow> (False, c) | Some m \<Rightarrow> (True, assign m c))"

definition ball_step ::
  "string \<Rightarrow> (BallModel \<Rightarrow> DualArmColliderConfiguration \<Rightarrow> DualArmColliderConfiguration)
     \<Rightarrow> load_step" where
  "ball_step key assign jd c =
     (case read_ball (dict_get jd key (JObj [])) of
        None \<Rightarrow> (False, c) | Some m \<Rightarrow> (True, assign m c))"

text \<open>The statements of the body run in order; the first that raises ends the run.\<close>

fun run_steps ::
  "load_step list \<Rightarrow> (string \<times> json) list \<Rightarrow> DualArmColliderConfiguration
     \<Rightarrow> bool \<times> DualArmColliderConfiguration" where
  "run_steps [] jd c = (True, c)"
| "run_steps (s # ss) jd c =
     (case s jd c of (False, c') \<Rightarrow> (False, c') | (True, c') \<Rightarrow> run_steps ss jd c')"

text \<open>
  The sections in the order of the source (lines 113 to 203). Both base capsules are read
  from the key \<open>base\<close>.
\<close>

definition loader_steps :: "load_step list" where
  "loader_steps =
     [read_rob_type,
      lozenge_step ''platform'' (\<lambda>m c. c\<lparr>platform := m\<rparr>),
      lozenge_step ''truck'' (\<lambda>m c. c\<lparr>truck := m\<rparr>),
      lozenge_step ''head'' (\<lambda>m c. c\<lparr>head := m\<rparr>),
      capsule_step ''base'' (\<lambda>m c. c\<lparr>L_base := m\<rparr>),
      capsule_step ''l_lowerArm'' (\<lambda>m c. c\<lparr>L_lowerArm := m\<rparr>),
      capsule_step ''l_elbow'' (\<lambda>m c. c\<lparr>L_elbow := m\<rparr>),
      capsule_step ''l_upperArm'' (\<lambda>m c. c\<lparr>L_upperArm := m\<rparr>),
      ball_step ''l_wrist'' (\<lambda>m c. c\<lparr>L_wrist := m\<rparr>),
      capsule_step ''base'' (\<lambda>m c. c\<lparr>R_base := m\<rparr>),
      capsule_step ''r_lowerArm'' (\<lambda>m c. c\<lparr>R_lowerArm := m\<rparr>),
      capsule_step ''r_elbow'' (\<lambda>m c. c\<lparr>R_elbow := m\<rparr>),
      capsule_step ''r_upperArm'' (\<lambda>m c. c\<lparr>R_upperArm := m\<rparr>),
      ball_step ''r_wrist'' (\<lambda>m c. c\<lparr>R_wrist := m\<rparr>)]"

text \<open>
  \<open>read_dual_arm_self_collision_model_from_json(file_path, config)\<close>: the error raised, if
  any, and the configuration object as the caller finds it afterwards. A document that is
  not a dict raises at the first \<open>json_data.get\<close>.
\<close>

definition read_dual_arm_self_collision_model_from_json ::
  "file_read \<Rightarrow> DualArmColliderConfiguration \<Rightarrow> load_error option \<times> DualArmColliderConfiguration"
  where
  "read_dual_arm_self_collision_model_from_json fr config =
     (case fr of
        FileNotFound \<Rightarrow> (Some CannotOpenFile, config)
      | OpenFails \<Rightarrow> (Some JsonParseError, config)
      | NotJson \<Rightarrow> (Some JsonParseError, config)
      | Parsed (JObj jd) \<Rightarrow>
          (case run_steps loader_steps jd config of
             (True, c') \<Rightarrow> (None, c')
           | (False, c') \<Rightarrow> (Some JsonParseError, c'))
      | Parsed _ \<Rightarrow> (Some JsonParseError, config))"



section \<open>Parameter marshaller (CollisionDetectionServer.convert_config)\<close>

text \<open>
  The ten-tuple \<open>self.init_params\<close>, named by the comments of the source.
\<close>

record init_params =
  ip_robType :: int
  ip_dh :: "json list"
  ip_platformGeometry :: "json list"
  ip_headGeometry :: "json list"
  ip_truckGeometry :: "json list"
  ip_baseGeometry :: "json list"
  ip_lowerArmGeometry :: "json list"
  ip_elbowGeometry :: "json list"
  ip_upperArmGeometry :: "json list"
  ip_wristGeometry :: "json list"

text \<open>
  \<open>params.extend(x[:n]); params += [0.0] * (n - len(x[:n]))\<close>: the slice followed by the
  zeros that fill it up to \<open>n\<close>; \<open>None\<close> when the slice raises.
\<close>

definition extend_padded :: "nat \<Rightarrow> json \<Rightarrow> json list option" where
  "extend_padded n x =
     (case py_slice n x of
        None \<Rightarrow> None
      | Some part \<Rightarrow> Some (part @ replicate (n - length part) (JNum 0)))"

definition build_lozenge_params :: "LozengeModelCo \<Rightarrow> json list option" where
  "build_lozenge_params lozenge = do {
     a \<leftarrow> extend_padded 6 (loz_ref2local_frame lozenge);
     b \<leftarrow> extend_padded 4 (loz_geometry lozenge);
     c \<leftarrow> extend_padded 3 (loz_offset lozenge);
     Some (take 13 (a @ b @ c))
   }"

definition build_capsule_params :: "CapsuleModel \<Rightarrow> json list option" where
  "build_capsule_params capsule = do {
     a \<leftarrow> extend_padded 3 (cap_start capsule);
     b \<leftarrow> extend_padded 3 (cap_end capsule);
     Some (take 7 (a @ b @ [cap_radius capsule]))
   }"

definition build_wrist_params :: "BallModel \<Rightarrow> json list option" where
  "build_wrist_params wrist = do {
     a \<leftarrow> extend_padded 3 (ball_offset wrist);
     Some (take 4 (a @ [ball_radius wrist]))
   }"

text \<open>
  \<open>convert_config\<close>: the value assigned to \<open>self.init_params\<close>, or \<open>None\<close> when an
  exception made the method return False (the attribute is assigned last, so it is then
  left as it was). \<open>self.config.dh[:4]\<close> is a copy, so the \<open>+=\<close> that pads it does not
  touch the configuration.
\<close>

definition convert_config :: "DualArmColliderConfiguration \<Rightarrow> init_params option" where
  "convert_config config = do {
     platform_geo \<leftarrow> build_lozenge_params (platform config);
     head_geo \<leftarrow> build_lozenge_params (head config);
     truck_geo \<leftarrow> build_lozenge_params (truck config);
     base_geo \<leftarrow> build_capsule_params (L_base config);
     lower_arm_geo \<leftarrow> build_capsule_params (L_lowerArm config);
     elbow_geo \<leftarrow> build_capsule_params (L_elbow config);
     upper_arm_geo \<leftarrow> build_capsule_params (L_upperArm config);
     wrist_geo \<leftarrow> build_wrist_params (L_wrist config);
     let dh_params = take 4 (dh config) @ replicate (4 - length (take 4 (dh config))) (JNum 0);
     Some \<lparr>ip_robType = robType config, ip_dh = dh_params,
            ip_platformGeometry = platform_geo, ip_headGeometry = head_geo,
            ip_truckGeometry = truck_geo, ip_baseGeometry = base_geo,
            ip_lowerArmGeometry = lower_arm_geo, ip_elbowGeometry = elbow_geo,
            ip_upperArmGeometry = upper_arm_geo, ip_wristGeometry = wrist_geo\<rparr>
   }"


section \<open>Collision engine (the native library dual_arm_collision)\<close>

text \<open>
  The engine is outside the repository and is used through its calls only. The model
  records the calls the server makes, in order, and takes from the environment which of
  them raise. The struct \<open>dualarm_tagAXISPOS_REF\<close> has the twelve attributes \<open>a0\<close> to
  \<open>a11\<close>: a function from the index to the value, so that \<open>setattr(pos, f"a{i}", v)\<close>
  is \<open>pos(i := v)\<close>.
\<close>

type_synonym axispos = "nat \<Rightarrow> real"

datatype dac_call =
    Init_dual_arm init_params axispos
  | Set_toolcollisionmodel json json json json
  | Set_collision_Pair int int
  | Check_collision_Pair

record engine =
  init_dual_arm_raises :: "init_params \<Rightarrow> axispos \<Rightarrow> bool"
  set_toolcollisionmodel_raises :: "json \<Rightarrow> json \<Rightarrow> json \<Rightarrow> json \<Rightarrow> bool"
  set_collision_Pair_raises :: "int \<Rightarrow> int \<Rightarrow> bool"
  check_collision_Pair_raises :: bool

text \<open>What \<open>dac.check_collision()\<close> does on one call: it raises, or returns its triple.\<close>

datatype check_outcome =
    CheckRaises string
  | CheckReturns bool "(int \<times> int) list" real


section \<open>Monitoring server (collision_detection_server.py)\<close>

record CollisionDetectionServer =
  config :: "DualArmColliderConfiguration option"
  init_params :: "init_params option"
  joint_pos :: axispos
  joint_vel :: axispos
  collision_detected :: bool
  colliding_pairs :: "(int \<times> int) list"
  min_distance :: real
  tool_config :: json

text \<open>
  The server as \<open>__init__\<close> leaves it before \<open>initialize\<close> runs, given the tool
  document \<open>load_tool_config\<close> returned. The two native structs are taken to start at
  zero.
\<close>

definition new_CollisionDetectionServer :: "json \<Rightarrow> CollisionDetectionServer" where
  "new_CollisionDetectionServer tc =
     \<lparr>config = None, init_params = None, joint_pos = (\<lambda>_. 0), joint_vel = (\<lambda>_. 0),
      collision_detected = False, colliding_pairs = [], min_distance = 0, tool_config = tc\<rparr>"

text \<open>\<open>math.radians\<close>.\<close>

definition radians :: "real \<Rightarrow> real" where
  "radians x = x * pi / 180"

subsection \<open>Startup\<close>

text \<open>
  \<open>load_config\<close>: a fresh configuration object is stored in \<open>self.config\<close> and then
  filled; an exception of the loader makes the method return False.
\<close>

definition load_config ::
  "file_read \<Rightarrow> CollisionDetectionServer \<Rightarrow> bool \<times> CollisionDetectionServer" where
  "load_config fr s =
     (case read_dual_arm_self_collision_model_from_json fr new_DualArmColliderConfiguration of
        (None, c) \<Rightarrow> (True, s\<lparr>config := Some c\<rparr>)
      | (Some e, c) \<Rightarrow> (False, s\<lparr>config := Some c\<rparr>))"

text \<open>
  \<open>init_dual_arm\<close>: the default joint positions are written into \<open>self.joint_pos\<close>, then
  the engine is initialised with the ten parameters and that struct.
\<close>

definition default_joint_values :: "real list" where
  "default_joint_values =
     map radians [0, 0, 0, 0, 0, 0] @ map radians [- 90, 50, 140, 0, 0, 0]"

definition init_dual_arm ::
  "engine \<Rightarrow> CollisionDetectionServer \<Rightarrow> bool \<times> CollisionDetectionServer \<times> dac_call list" where
  "init_dual_arm eng s =
     (let jp = fold (\<lambda>(i, v) pos. pos(i := v)) (enumerate 0 default_joint_values) (joint_pos s);
          s1 = s\<lparr>joint_pos := jp\<rparr>
      in case init_params s1 of
           None \<Rightarrow> (False, s1, [])
         | Some p \<Rightarrow> (\<not> init_dual_arm_raises eng p jp, s1, [Init_dual_arm p jp]))"

text \<open>
  \<open>set_tool_collision_models\<close>, one arm: the call made for the tool section \<open>key\<close> of the
  tool document, or \<open>None\<close> when reading the section raises.
\<close>

definition tool_model_call :: "string \<Rightarrow> string \<Rightarrow> real \<Rightarrow> json \<Rightarrow> dac_call option" where
  "tool_model_call key index_key default_index tc =
     (case py_in key tc of
        None \<Rightarrow> None
      | Some False \<Rightarrow>
          Some (Set_toolcollisionmodel (JNum default_index)
                  (JArr [JNum 0, JNum 0, JNum 0]) (JArr [JNum 0, JNum 0, JNum 0]) (JNum (2 / 100)))
      | Some True \<Rightarrow>
          (case py_item tc key of
             Some (JObj d) \<Rightarrow>
               Some (Set_toolcollisionmodel
                       (dict_get d index_key (JNum default_index))
                       (dict_get d ''start'' (JArr [JNum 0, JNum 0, JNum 0]))
                       (dict_get d ''end'' (JArr [JNum 0, JNum 0, JNum 0]))
                       (dict_get d ''radius'' (JNum (2 / 100))))
           | _ \<Rightarrow> None))"

fun call_raises :: "engine \<Rightarrow> dac_call \<Rightarrow> bool" where
  "call_raises eng (Init_dual_arm p jp) = init_dual_arm_raises eng p jp"
| "call_raises eng (Set_toolcollisionmodel i a b r) = set_toolcollisionmodel_raises eng i a b r"
| "call_raises eng (Set_collision_Pair id1 id2) = set_collision_Pair_raises eng id1 id2"
| "call_raises eng Check_collision_Pair = check_collision_Pair_raises eng"

definition set_tool_collision_models :: "engine \<Rightarrow> json \<Rightarrow> bool \<times> dac_call list" where
  "set_tool_collision_models eng tc =
     (case tool_model_call ''L_tool'' ''L_tool_index'' 6 tc of
        None \<Rightarrow> (False, [])
      | Some l \<Rightarrow>
          if call_raises eng l then (False, [l])
          else (case tool_model_call ''R_tool'' ''R_tool_index'' 16 tc of
                  None \<Rightarrow> (False, [l])
                | Some r \<Rightarrow> (\<not> call_raises eng r, [l, r])))"

text \<open>\<open>add_collision_pairs\<close>: the list of the source and the loop over it.\<close>

definition collision_pairs :: "(int \<times> int) list" where
  "collision_pairs =
     [(- 1, 2), (- 1, 3), (- 1, 4), (- 1, 5), (- 1, 6),
      (- 1, 12), (- 1, 13), (- 1, 14), (- 1, 15), (- 1, 16),
      (1, 16), (6, 16), (6, 11)]"

fun add_pairs_loop :: "engine \<Rightarrow> (int \<times> int) list \<Rightarrow> bool \<times> dac_call list" where
  "add_pairs_loop eng [] = (True, [])"
| "add_pairs_loop eng ((id1, id2) # rest) =
     (if set_collision_Pair_raises eng id1 id2 then (False, [Set_collision_Pair id1 id2])
      else (case add_pairs_loop eng rest of
              (ok, calls) \<Rightarrow> (ok, Set_collision_Pair id1 id2 # calls)))"

definition add_collision_pairs :: "engine \<Rightarrow> bool \<times> dac_call list" where
  "add_collision_pairs eng = add_pairs_loop eng collision_pairs"

definition check_collision_pairs :: "engine \<Rightarrow> bool \<times> dac_call list" where
  "check_collision_pairs eng = (\<not> check_collision_Pair_raises eng, [Check_collision_Pair])"

text \<open>
  \<open>initialize\<close>: what it returns, the server afterwards and the engine calls made. Every
  step but the last returns False on failure; a failed \<open>check_collision_pairs\<close> is only
  reported.
\<close>

definition initialize ::
  "file_read \<Rightarrow> engine \<Rightarrow> CollisionDetectionServer
     \<Rightarrow> bool \<times> CollisionDetectionServer \<times> dac_call list" where
  "initialize fr eng s =
     (case load_config fr s of
        (False, s1) \<Rightarrow> (False, s1, [])
      | (True, s1) \<Rightarrow>
          (case Option.bind (config s1) convert_config of
             None \<Rightarrow> (False, s1, [])
           | Some p \<Rightarrow>
               (case init_dual_arm eng (s1\<lparr>init_params := Some p\<rparr>) of
                  (False, s3, t3) \<Rightarrow> (False, s3, t3)
                | (True, s3, t3) \<Rightarrow>
                    (case set_tool_collision_models eng (tool_config s3) of
                       (False, t4) \<Rightarrow> (False, s3, t3 @ t4)
                     | (True, t4) \<Rightarrow>
                         (case add_collision_pairs eng of
                            (False, t5) \<Rightarrow> (False, s3, t3 @ t4 @ t5)
                          | (True, t5) \<Rightarrow>
                              (case check_collision_pairs eng of
                                 (ok6, t6) \<Rightarrow> (True, s3, t3 @ t4 @ t5 @ t6)))))))"

subsection \<open>Per message\<close>

text \<open>
  Assignment of a Python value to a field of the native struct. The fields are C doubles,
  so the binding converts the value as Python's float conversion does: a float is stored
  as it is; an int is converted, which raises OverflowError when it rounds to more than
  the largest double, that is from \<open>2 ^ 1024 - 2 ^ 970\<close> on in magnitude; True and False
  are the ints 1 and 0; None, a string, a list or a dict raises TypeError. A float parsed
  from JSON is below that bound whenever it is finite, so one case covers both kinds of
  number. \<open>None\<close> here is the exception.
\<close>

definition double_overflow :: real where
  "double_overflow = 2 ^ 1024 - 2 ^ 970"

fun double_field :: "json \<Rightarrow> real option" where
  "double_field (JNum r) = (if \<bar>r\<bar> < double_overflow then Some r else None)"
| "double_field (JBool b) = Some (if b then 1 else 0)"
| "double_field _ = None"

text \<open>
  \<open>joint_positions[i]\<close> stored in a field of the native struct: the element of a list
  at an index within range, converted as above. An index out of range raises IndexError
  and a value that is not a list raises on the subscript or, for a string, on the
  assignment of the character.
\<close>

fun joint_value :: "json \<Rightarrow> nat \<Rightarrow> real option" where
  "joint_value (JArr xs) i = (if i < length xs then double_field (xs ! i) else None)"
| "joint_value _ i = None"

text \<open>
  The loop of \<open>update_joints\<close> over the indices: the position of index \<open>i\<close> is assigned
  before the velocity of index \<open>i\<close> is read. The result says whether the loop completed.
\<close>

fun update_loop ::
  "nat list \<Rightarrow> json \<Rightarrow> json \<Rightarrow> axispos \<times> axispos \<Rightarrow> bool \<times> axispos \<times> axispos" where
  "update_loop [] jp jv (pos, vel) = (True, pos, vel)"
| "update_loop (i # rest) jp jv (pos, vel) =
     (case joint_value jp i of
        None \<Rightarrow> (False, pos, vel)
      | Some p \<Rightarrow>
          (case joint_value jv i of
             None \<Rightarrow> (False, pos(i := p), vel)
           | Some v \<Rightarrow> update_loop rest jp jv (pos(i := p), vel(i := v))))"

text \<open>
  \<open>update_joints\<close>: every exception is caught and reported, so the method always
  returns; the second component says whether \<open>dac.update_joints\<close> was reached.
\<close>

definition update_joints ::
  "json \<Rightarrow> json \<Rightarrow> CollisionDetectionServer \<Rightarrow> CollisionDetectionServer \<times> bool" where
  "update_joints joint_positions joint_velocities s =
     (case update_loop [0..<12] joint_positions joint_velocities (joint_pos s, joint_vel s) of
        (ok, pos, vel) \<Rightarrow> (s\<lparr>joint_pos := pos, joint_vel := vel\<rparr>, ok))"

text \<open>\<open>json.dumps\<close> of a pair of ints is a two-element array.\<close>

definition pair_json :: "int \<times> int \<Rightarrow> json" where
  "pair_json p = JArr [JNum (real_of_int (fst p)), JNum (real_of_int (snd p))]"

text \<open>\<open>check_collision\<close>: the server afterwards and the dict returned.\<close>

fun check_collision ::
  "check_outcome \<Rightarrow> CollisionDetectionServer \<Rightarrow> CollisionDetectionServer \<times> json" where
  "check_collision (CheckReturns result collider_pair_list distance) s =
     (s\<lparr>collision_detected := result, colliding_pairs := collider_pair_list,
        min_distance := distance\<rparr>,
      JObj [(''collision_detected'', JBool result),
            (''colliding_pairs'', JArr (map pair_json collider_pair_list)),
            (''min_distance'', JNum distance)])"
| "check_collision (CheckRaises e) s =
     (s,
      JObj [(''collision_detected'', JBool False),
            (''colliding_pairs'', JArr []),
            (''min_distance'', JNum 0),
            (''error'', JStr e)])"

text \<open>
  One pass of the loop of \<open>handle_client\<close> takes from the environment: the value of
  \<open>self.running\<close> when the loop tests it, what \<open>conn.recv\<close> gives, what the engine's
  check does if it is called, and whether \<open>conn.sendall\<close> raises if it is called.
  \<open>data.decode\<close> and \<open>json.loads\<close> are library code: a received text is classified by
  what they make of it.
\<close>

datatype payload = BadUtf8 | BadJson | Json json

datatype recv_result = RecvRaises | RecvEmpty | RecvData payload

record iteration =
  it_running :: bool
  it_recv :: recv_result
  it_check :: check_outcome
  it_send_raises :: bool

text \<open>
  The inner \<open>try\<close> block on one received text: the reply passed to \<open>sendall\<close>, no reply,
  or an exception that the inner handler does not catch (it catches JSONDecodeError only).
\<close>

datatype dispatch = Reply json | NoReply | Raised

definition handle_message ::
  "check_outcome \<Rightarrow> payload \<Rightarrow> CollisionDetectionServer \<Rightarrow> CollisionDetectionServer \<times> dispatch"
  where
  "handle_message chk p s =
     (case p of
        BadUtf8 \<Rightarrow> (s, Raised)
      | BadJson \<Rightarrow> (s, Reply (JObj [(''error'', JStr ''Invalid JSON format'')]))
      | Json (JObj received_data) \<Rightarrow>
          if map_of received_data ''type'' = Some (JStr ''joint_data'') then
            (case map_of received_data ''joint_positions'' of
               None \<Rightarrow> (s, Raised)
             | Some joint_positions \<Rightarrow>
                 (case map_of received_data ''joint_velocities'' of
                    None \<Rightarrow> (s, Raised)
                  | Some joint_velocities \<Rightarrow>
                      (case check_collision chk
                              (fst (update_joints joint_positions joint_velocities s)) of
                         (s', collision_result) \<Rightarrow>
                           (s', Reply (JObj [(''type'', JStr ''collision_result''),
                                             (''result'', collision_result)])))))
          else if map_of received_data ''type'' = Some (JStr ''ping'') then
            (s, Reply (JObj [(''type'', JStr ''pong'')]))
          else (s, NoReply)
      | Json _ \<Rightarrow> (s, Raised))"

datatype connection = Open | Closed

text \<open>
  \<open>handle_client\<close> over the passes the environment provides: the server afterwards, the
  messages sent in order, and the connection, which is still open (the worker waits in
  \<open>recv\<close>) when the passes run out and closed once the loop is left.
\<close>

fun handle_client ::
  "iteration list \<Rightarrow> CollisionDetectionServer
     \<Rightarrow> CollisionDetectionServer \<times> json list \<times> connection" where
  "handle_client [] s = (s, [], Open)"
| "handle_client (it # rest) s =
     (if \<not> it_running it then (s, [], Closed)
      else case it_recv it of
        RecvRaises \<Rightarrow> (s, [], Closed)
      | RecvEmpty \<Rightarrow> (s, [], Closed)
      | RecvData p \<Rightarrow>
          (case handle_message (it_check it) p s of
             (s', Raised) \<Rightarrow> (s', [], Closed)
           | (s', NoReply) \<Rightarrow> handle_client rest s'
           | (s', Reply r) \<Rightarrow>
               if it_send_raises it then (s', [], Closed)
               else (case handle_client rest s' of
                       (s'', sent, c) \<Rightarrow> (s'', r # sent, c))))"


section \<open>Telemetry client (robot_arm_client.py)\<close>

text \<open>
  The hardware SDK (\<open>CPSClient\<close>) is outside the repository. A read call raises, or
  returns a code and fills \<open>result\<close>; each entry of \<open>result\<close> is given by what \<open>float\<close>
  makes of it: a value, or \<open>None\<close> when \<open>float\<close> raises. A stop call raises or returns
  a code.
\<close>

datatype sdk_read = ReadRaises | ReadReturns int "real option list"

datatype sdk_stop = StopRaises | StopReturns int

record Arm =
  arm_type :: string
  boxid :: int
  ip :: string
  port :: int
  robot_id :: int
  connected :: bool

text \<open>\<open>Arm.read_joint_positions\<close>: \<open>None\<close> is Python's None.\<close>

definition read_joint_positions :: "sdk_read \<Rightarrow> Arm \<Rightarrow> real list option" where
  "read_joint_positions rd arm =
     (if \<not> connected arm then None
      else case rd of
        ReadRaises \<Rightarrow> None
      | ReadReturns ret result \<Rightarrow>
          if ret \<noteq> 0 then None
          else if length result \<noteq> 6 then None
          else (case those result of
                  None \<Rightarrow> None
                | Some positions_degrees \<Rightarrow>
                    (let positions_radians = map radians positions_degrees
                     in Some (positions_radians[0 := positions_radians ! 0 + pi]))))"

text \<open>\<open>Arm.read_joint_velocities\<close>.\<close>

definition read_joint_velocities :: "sdk_read \<Rightarrow> Arm \<Rightarrow> real list option" where
  "read_joint_velocities rd arm =
     (if \<not> connected arm then None
      else case rd of
        ReadRaises \<Rightarrow> None
      | ReadReturns ret result \<Rightarrow>
          if ret \<noteq> 0 then None
          else if length result \<noteq> 6 then None
          else those result)"

text \<open>\<open>Arm.group_stop\<close>: True when the SDK's stop returned 0.\<close>

fun group_stop :: "sdk_stop \<Rightarrow> Arm \<Rightarrow> bool" where
  "group_stop StopRaises arm = False"
| "group_stop (StopReturns nRet) arm = (nRet = 0)"

record RobotArmClient =
  left_arm :: Arm
  right_arm :: Arm
  client_collision_detected :: bool

text \<open>
  The client as \<open>__init__\<close> leaves it, with the connection parameters of the source;
  the two flags are what \<open>connect\<close> left in each arm.
\<close>

definition new_RobotArmClient :: "bool \<Rightarrow> bool \<Rightarrow> RobotArmClient" where
  "new_RobotArmClient left_connected right_connected =
     \<lparr>left_arm = \<lparr>arm_type = ''left_arm'', boxid = 0, ip = ''192.168.1.20'', port = 10003,
                   robot_id = 0, connected = left_connected\<rparr>,
      right_arm = \<lparr>arm_type = ''right_arm'', boxid = 1, ip = ''192.168.1.30'', port = 10003,
                    robot_id = 0, connected = right_connected\<rparr>,
      client_collision_detected = False\<rparr>"

text \<open>
  What the environment does during one call of \<open>send_joint_data\<close>: the four SDK reads,
  the socket's \<open>sendall\<close> and \<open>recv\<close>, and the two SDK stops, each used only if the
  client makes the call.
\<close>

record client_env =
  left_pos_read :: sdk_read
  right_pos_read :: sdk_read
  left_vel_read :: sdk_read
  right_vel_read :: sdk_read
  sendall_raises :: bool
  response :: recv_result
  left_stop :: sdk_stop
  right_stop :: sdk_stop

text \<open>
  \<open>emergency_stop\<close>: the stop calls made, in order, each with the arm's box and robot
  identifiers and what \<open>group_stop\<close> returned.
\<close>

type_synonym stop_call = "(int \<times> int) \<times> bool"

definition emergency_stop :: "client_env \<Rightarrow> RobotArmClient \<Rightarrow> stop_call list" where
  "emergency_stop env c =
     (if connected (left_arm c)
      then [((boxid (left_arm c), robot_id (left_arm c)), group_stop (left_stop env) (left_arm c))]
      else [])
     @
     (if connected (right_arm c)
      then [((boxid (right_arm c), robot_id (right_arm c)),
             group_stop (right_stop env) (right_arm c))]
      else [])"

text \<open>
  \<open>handle_collision_result\<close>: \<open>None\<close> when \<open>result.get\<close> raises (the result is not a
  dict); otherwise the client afterwards and the stop calls made.
\<close>

definition handle_collision_result ::
  "client_env \<Rightarrow> json \<Rightarrow> RobotArmClient \<Rightarrow> (RobotArmClient \<times> stop_call list) option" where
  "handle_collision_result env result c =
     (case py_get result ''collision_detected'' (JBool False) of
        None \<Rightarrow> None
      | Some flag \<Rightarrow>
          if truthy flag
          then Some (c\<lparr>client_collision_detected := True\<rparr>,
                     emergency_stop env (c\<lparr>client_collision_detected := True\<rparr>))
          else Some (c\<lparr>client_collision_detected := False\<rparr>, []))"

text \<open>The request built by \<open>send_joint_data\<close> from the four vectors read.\<close>

definition joint_data_message :: "real list \<Rightarrow> real list \<Rightarrow> real list \<Rightarrow> real list \<Rightarrow> json" where
  "joint_data_message left_pos right_pos left_vel right_vel =
     JObj [(''type'', JStr ''joint_data''),
           (''joint_positions'', JArr (map JNum (left_pos @ right_pos))),
           (''joint_velocities'', JArr (map JNum (left_vel @ right_vel))),
           (''units'', JObj [(''positions'', JStr ''radians''),
                             (''velocities'', JStr ''degrees_per_second'')])]"

text \<open>
  The part of \<open>send_joint_data\<close> after the request is sent: the reply is received,
  parsed and acted on. \<open>None\<close> when an exception ends the method.
\<close>

definition handle_response ::
  "client_env \<Rightarrow> RobotArmClient \<Rightarrow> (RobotArmClient \<times> stop_call list) option" where
  "handle_response env c =
     (case response env of
        RecvRaises \<Rightarrow> None
      | RecvEmpty \<Rightarrow> Some (c, [])
      | RecvData BadUtf8 \<Rightarrow> None
      | RecvData BadJson \<Rightarrow> None
      | RecvData (Json (JObj response_data)) \<Rightarrow>
          if map_of response_data ''type'' = Some (JStr ''collision_result'') then
            (case map_of response_data ''result'' of
               None \<Rightarrow> None
             | Some result \<Rightarrow> handle_collision_result env result c)
          else Some (c, [])
      | RecvData (Json _) \<Rightarrow> None)"

text \<open>
  \<open>send_joint_data\<close>: what it returns, the client afterwards, the request sent (if any)
  and the stop calls made. An arm that is not connected is not read.
\<close>

definition send_joint_data ::
  "client_env \<Rightarrow> RobotArmClient \<Rightarrow> bool \<times> RobotArmClient \<times> json option \<times> stop_call list" where
  "send_joint_data env c =
     (let left_pos = (if connected (left_arm c)
                      then read_joint_positions (left_pos_read env) (left_arm c) else None);
          right_pos = (if connected (right_arm c)
                       then read_joint_positions (right_pos_read env) (right_arm c) else None);
          left_vel = (if connected (left_arm c)
                      then read_joint_velocities (left_vel_read env) (left_arm c) else None);
          right_vel = (if connected (right_arm c)
                       then read_joint_velocities (right_vel_read env) (right_arm c) else None)
      in case (left_pos, right_pos) of
           (Some lp, Some rp) \<Rightarrow>
             (case (left_vel, right_vel) of
                (Some lv, Some rv) \<Rightarrow>
                  if sendall_raises env then (False, c, None, [])
                  else (case handle_response env c of
                          None \<Rightarrow> (False, c, Some (joint_data_message lp rp lv rv), [])
                        | Some (c', stops) \<Rightarrow>
                            (True, c', Some (joint_data_message lp rp lv rv), stops))
              | _ \<Rightarrow> (False, c, None, []))
         | _ \<Rightarrow> (False, c, None, []))"


section \<open>Sample inputs\<close>

text \<open>
  A description document with an exact platform, a short truck geometry, no head, an
  over-long base start and a short wrist offset.
\<close>

definition sample_document :: json where
  "sample_document =
     JObj [(''RobType'', JStr ''my_dual_arm_robot''),
           (''DH'', JObj [(''d1'', JNum 1), (''a2'', JNum 2)]),
           (''platform'', JObj [(''ref2local_frame'', JArr [JNum 1, JNum 2, JNum 3, JNum 4, JNum 5, JNum 6]),
                                (''geometry'', JArr [JNum 7, JNum 8, JNum 9, JNum 10]),
                                (''offset'', JArr [JNum 11, JNum 12, JNum 13])]),
           (''truck'', JObj [(''geometry'', JArr [JNum 7, JNum 8])]),
           (''base'', JObj [(''start'', JArr [JNum 1, JNum 2, JNum 3, JNum 4]),
                            (''radius'', JNum 5)]),
           (''l_wrist'', JObj [(''offset'', JArr [JNum 1]), (''radius'', JNum 2)])]"


text \<open>A document whose \<open>truck\<close> section is a number, after a valid \<open>platform\<close> section.\<close>

definition broken_document :: json where
  "broken_document =
     JObj [(''platform'', JObj [(''type'', JStr ''lozenge'')]), (''truck'', JNum 5)]"

text \<open>
  A pass of the server loop in which the server is running, a text arrives and the send
  succeeds.
\<close>

definition pass :: "payload \<Rightarrow> check_outcome \<Rightarrow> iteration" where
  "pass p chk = \<lparr>it_running = True, it_recv = RecvData p, it_check = chk, it_send_raises = False\<rparr>"

text \<open>A telemetry request as the client builds it, with twelve positions and velocities.\<close>

definition sample_telemetry :: json where
  "sample_telemetry =
     joint_data_message [1, 2, 3, 4, 5, 6] [7, 8, 9, 10, 11, 12]
                        [0, 0, 0, 0, 0, 0] [0, 0, 0, 0, 0, 0]"

text \<open>
  A client environment: both arms return six values, the left stop raises, the right
  stop succeeds, and the server's reply is the given document.
\<close>

definition sample_env :: "json \<Rightarrow> client_env" where
  "sample_env reply =
     \<lparr>left_pos_read = ReadReturns 0 (map Some [0, 90, 180, - 90, 45, 30]),
      right_pos_read = ReadReturns 0 (map Some [180, 0, 0, 0, 0, 0]),
      left_vel_read = ReadReturns 0 (map Some [1, 2, 3, 4, 5, 6]),
      right_vel_read = ReadReturns 0 (map Some [7, 8, 9, 10, 11, 12]),
      sendall_raises = False,
      response = RecvData (Json reply),
      left_stop = StopRaises,
      right_stop = StopReturns 0\<rparr>"

text \<open>An engine that accepts every startup call except the pair verification.\<close>

definition sample_engine :: engine where
  "sample_engine =
     \<lparr>init_dual_arm_raises = (\<lambda>_ _. False),
      set_toolcollisionmodel_raises = (\<lambda>_ _ _ _. False),
      set_collision_Pair_raises = (\<lambda>_ _. False),
      check_collision_Pair_raises = True\<rparr>"

text \<open>
  \<open>take n xs\<close> filled with zeros on the right up to \<open>n\<close> elements: notation for the
  statements below.
\<close>

abbreviation padded :: "nat \<Rightarrow> json list \<Rightarrow> json list" where
  "padded n xs \<equiv> take n xs @ replicate (n - length xs) (JNum 0)"



section \<open>The loader\<close>

lemmas loader_defs =
  read_dual_arm_self_collision_model_from_json_def loader_steps_def read_rob_type_def
  lozenge_step_def capsule_step_def ball_step_def dict_get_def
  new_DualArmColliderConfiguration_def new_LozengeModelCo_def new_CapsuleModel_def
  new_BallModel_def RobotType_DualArm_def

lemma sample_loads:
  "read_dual_arm_self_collision_model_from_json (Parsed sample_document)
     new_DualArmColliderConfiguration =
   (None,
    \<lparr>dh = [JNum 1, JNum 0, JNum 0, JNum 2], robType = 2,
     platform = \<lparr>loz_ref2local_frame = JArr [JNum 1, JNum 2, JNum 3, JNum 4, JNum 5, JNum 6],
                 loz_offset = JArr [JNum 11, JNum 12, JNum 13],
                 loz_geometry = JArr [JNum 7, JNum 8, JNum 9, JNum 10], loz_type = JStr []\<rparr>,
     truck = \<lparr>loz_ref2local_frame = JArr [], loz_offset = JArr [],
              loz_geometry = JArr [JNum 7, JNum 8], loz_type = JStr []\<rparr>,
     head = \<lparr>loz_ref2local_frame = JArr [], loz_offset = JArr [], loz_geometry = JArr [],
             loz_type = JStr []\<rparr>,
     L_base = \<lparr>cap_start = JArr [JNum 1, JNum 2, JNum 3, JNum 4], cap_end = JArr [],
               cap_radius = JNum 5, cap_type = JStr []\<rparr>,
     L_lowerArm = \<lparr>cap_start = JArr [], cap_end = JArr [], cap_radius = JNum 0, cap_type = JStr []\<rparr>,
     L_elbow = \<lparr>cap_start = JArr [], cap_end = JArr [], cap_radius = JNum 0, cap_type = JStr []\<rparr>,
     L_upperArm = \<lparr>cap_start = JArr [], cap_end = JArr [], cap_radius = JNum 0, cap_type = JStr []\<rparr>,
     L_wrist = \<lparr>ball_offset = JArr [JNum 1], ball_radius = JNum 2, ball_type = JStr []\<rparr>,
     R_base = \<lparr>cap_start = JArr [JNum 1, JNum 2, JNum 3, JNum 4], cap_end = JArr [],
               cap_radius = JNum 5, cap_type = JStr []\<rparr>,
     R_lowerArm = \<lparr>cap_start = JArr [], cap_end = JArr [], cap_radius = JNum 0, cap_type = JStr []\<rparr>,
     R_elbow = \<lparr>cap_start = JArr [], cap_end = JArr [], cap_radius = JNum 0, cap_type = JStr []\<rparr>,
     R_upperArm = \<lparr>cap_start = JArr [], cap_end = JArr [], cap_radius = JNum 0, cap_type = JStr []\<rparr>,
     R_wrist = \<lparr>ball_offset = JArr [], ball_radius = JNum 0, ball_type = JStr []\<rparr>\<rparr>)"
  by (simp add: sample_document_def loader_defs)


lemma capsule_step_True:
  "capsule_step k f jd c = (True, c') \<Longrightarrow>
     \<exists>m. read_capsule (dict_get jd k (JObj [])) = Some m \<and> c' = f m c"
  by (auto simp: capsule_step_def split: option.splits)

lemma lozenge_step_True:
  "lozenge_step k f jd c = (True, c') \<Longrightarrow>
     \<exists>m. read_lozenge (dict_get jd k (JObj [])) = Some m \<and> c' = f m c"
  by (auto simp: lozenge_step_def split: option.splits)

lemma ball_step_True:
  "ball_step k f jd c = (True, c') \<Longrightarrow>
     \<exists>m. read_ball (dict_get jd k (JObj [])) = Some m \<and> c' = f m c"
  by (auto simp: ball_step_def split: option.splits)

lemma run_steps_Cons_True:
  "run_steps (st # ss) jd c = (True, c') \<Longrightarrow>
     \<exists>c1. st jd c = (True, c1) \<and> run_steps ss jd c1 = (True, c')"
  by (cases "st jd c") (auto split: bool.splits)

lemma loader_success_dict:
  "read_dual_arm_self_collision_model_from_json fr c0 = (None, c) \<Longrightarrow>
     \<exists>jd. fr = Parsed (JObj jd) \<and> run_steps loader_steps jd c0 = (True, c)"
  by (cases fr) (auto simp: read_dual_arm_self_collision_model_from_json_def
      split: json.splits prod.splits bool.splits)

lemma both_bases_from_base_key:
  assumes "run_steps loader_steps jd c0 = (True, c)"
  shows "\<exists>m. read_capsule (dict_get jd ''base'' (JObj [])) = Some m \<and> L_base c = m \<and> R_base c = m"
  using assms unfolding loader_steps_def
  by (auto simp del: run_steps.simps(2) dest!: run_steps_Cons_True capsule_step_True lozenge_step_True ball_step_True)


text \<open>
  C9. After a successful load the left-arm base capsule and the right-arm base capsule
  are equal in start, end, radius and type: both are read from the key \<open>base\<close>.
\<close>

theorem base_capsules_equal:
  assumes "read_dual_arm_self_collision_model_from_json fr c0 = (None, c)"
  shows "L_base c = R_base c"
proof -
  from assms obtain jd where "run_steps loader_steps jd c0 = (True, c)"
    using loader_success_dict by blast
  then show ?thesis using both_bases_from_base_key by fastforce
qed


theorem base_capsules_equal_witness:
  "L_base (snd (read_dual_arm_self_collision_model_from_json (Parsed sample_document)
                  new_DualArmColliderConfiguration))
   = R_base (snd (read_dual_arm_self_collision_model_from_json (Parsed sample_document)
                    new_DualArmColliderConfiguration))
   \<and> cap_radius (L_base (snd (read_dual_arm_self_collision_model_from_json
                               (Parsed sample_document) new_DualArmColliderConfiguration)))
     = JNum 5"
  using base_capsules_equal [OF sample_loads] by (simp add: sample_loads)

text \<open>
  C5, as amended. A missing file raises the "cannot open file" error and a text that is
  not JSON raises the "JSON parse error", as does a file that cannot be opened and a
  document that is not a dict; in all these cases the configuration passed in is
  unchanged. The first error is raised for a missing file only.
\<close>

theorem loader_failure_before_first_write:
  "read_dual_arm_self_collision_model_from_json FileNotFound c = (Some CannotOpenFile, c)
   \<and> read_dual_arm_self_collision_model_from_json NotJson c = (Some JsonParseError, c)
   \<and> read_dual_arm_self_collision_model_from_json OpenFails c = (Some JsonParseError, c)
   \<and> ((\<forall>d. v \<noteq> JObj d) \<longrightarrow>
        read_dual_arm_self_collision_model_from_json (Parsed v) c = (Some JsonParseError, c))
   \<and> (read_dual_arm_self_collision_model_from_json fr c = (Some e, c') \<longrightarrow>
        (e = CannotOpenFile \<longleftrightarrow> fr = FileNotFound))"
proof -
  have nondict: "read_dual_arm_self_collision_model_from_json (Parsed v) c = (Some JsonParseError, c)"
    if "\<forall>d. v \<noteq> JObj d"
    using that by (cases v) (simp_all add: read_dual_arm_self_collision_model_from_json_def)
  have kind: "e = CannotOpenFile \<longleftrightarrow> fr = FileNotFound"
    if "read_dual_arm_self_collision_model_from_json fr c = (Some e, c')"
    using that
    by (cases fr)
      (auto simp: read_dual_arm_self_collision_model_from_json_def
        split: json.splits prod.splits bool.splits)
  show ?thesis
    using nondict kind by (simp add: read_dual_arm_self_collision_model_from_json_def)
qed

theorem loader_failure_before_first_write_witness:
  "read_dual_arm_self_collision_model_from_json (Parsed (JArr []))
     new_DualArmColliderConfiguration
   = (Some JsonParseError, new_DualArmColliderConfiguration)
   \<and> read_dual_arm_self_collision_model_from_json FileNotFound new_DualArmColliderConfiguration
     = (Some CannotOpenFile, new_DualArmColliderConfiguration)"
  using loader_failure_before_first_write
          [of new_DualArmColliderConfiguration "JArr []" FileNotFound CannotOpenFile
              new_DualArmColliderConfiguration]
  by simp

text \<open>
  The claim as stated fails: a document that parses, with a valid \<open>platform\<close> section
  followed by a \<open>truck\<close> section that is not a dict, raises the parse error after the
  platform has been written into the caller's configuration.
\<close>

theorem loader_partial_mutation:
  "fst (read_dual_arm_self_collision_model_from_json (Parsed broken_document)
          new_DualArmColliderConfiguration) = Some JsonParseError
   \<and> loz_type (platform (snd (read_dual_arm_self_collision_model_from_json
                               (Parsed broken_document) new_DualArmColliderConfiguration)))
     = JStr ''lozenge''
   \<and> loz_type (platform new_DualArmColliderConfiguration) = JStr []"
  by (simp add: broken_document_def loader_defs)


section \<open>The marshaller\<close>

lemma extend_padded_array: "extend_padded n (JArr xs) = Some (padded n xs)"
  by (simp add: extend_padded_def min_def)

lemma length_padded: "length (padded n xs) = n"
  by (simp add: min_def)

lemma build_lozenge_params_arrays:
  assumes "loz_ref2local_frame l = JArr r" "loz_geometry l = JArr g" "loz_offset l = JArr f"
  shows "build_lozenge_params l = Some (padded 6 r @ padded 4 g @ padded 3 f)"
proof -
  define a b c where "a = padded 6 r" and "b = padded 4 g" and "c = padded 3 f"
  have len: "length a = 6" "length b = 4" "length c = 3"
    by (simp_all add: a_def b_def c_def min_def)
  have ext: "extend_padded 6 (JArr r) = Some a" "extend_padded 4 (JArr g) = Some b"
    "extend_padded 3 (JArr f) = Some c"
    by (simp_all only: extend_padded_array a_def b_def c_def)
  have "build_lozenge_params l = Some (take 13 (a @ b @ c))"
    by (simp add: build_lozenge_params_def assms ext)
  also have "take 13 (a @ b @ c) = a @ b @ c"
    using len by simp
  finally show ?thesis
    by (simp only: a_def b_def c_def)
qed

lemma build_capsule_params_arrays:
  assumes "cap_start m = JArr s" "cap_end m = JArr e"
  shows "build_capsule_params m = Some (padded 3 s @ padded 3 e @ [cap_radius m])"
proof -
  define a b where "a = padded 3 s" and "b = padded 3 e"
  have len: "length a = 3" "length b = 3"
    by (simp_all add: a_def b_def min_def)
  have ext: "extend_padded 3 (JArr s) = Some a" "extend_padded 3 (JArr e) = Some b"
    by (simp_all only: extend_padded_array a_def b_def)
  have "build_capsule_params m = Some (take 7 (a @ b @ [cap_radius m]))"
    by (simp add: build_capsule_params_def assms ext)
  also have "take 7 (a @ b @ [cap_radius m]) = a @ b @ [cap_radius m]"
    using len by simp
  finally show ?thesis
    by (simp only: a_def b_def)
qed

lemma build_wrist_params_arrays:
  assumes "ball_offset w = JArr off"
  shows "build_wrist_params w = Some (padded 3 off @ [ball_radius w])"
proof -
  define a where "a = padded 3 off"
  have len: "length a = 3"
    by (simp add: a_def min_def)
  have ext: "extend_padded 3 (JArr off) = Some a"
    by (simp only: extend_padded_array a_def)
  have "build_wrist_params w = Some (take 4 (a @ [ball_radius w]))"
    by (simp add: build_wrist_params_def assms ext)
  also have "take 4 (a @ [ball_radius w]) = a @ [ball_radius w]"
    using len by simp
  finally show ?thesis
    by (simp only: a_def)
qed

text \<open>
  C4. For a configuration whose geometry attributes are arrays of any length, the
  marshaller succeeds and every vector has its fixed arity: 13 for the three lozenges,
  7 for the four capsules, 4 for the wrist ball and 4 for DH; each source array is cut
  to its arity or filled with zeros on the right.
\<close>

theorem marshaller_fixed_arity:
  assumes "platform c = \<lparr>loz_ref2local_frame = JArr pr, loz_offset = JArr po,
                          loz_geometry = JArr pg, loz_type = pt\<rparr>"
    and "head c = \<lparr>loz_ref2local_frame = JArr hr, loz_offset = JArr ho,
                     loz_geometry = JArr hg, loz_type = ht\<rparr>"
    and "truck c = \<lparr>loz_ref2local_frame = JArr tr, loz_offset = JArr to,
                      loz_geometry = JArr tg, loz_type = tt\<rparr>"
    and "L_base c = \<lparr>cap_start = JArr bs, cap_end = JArr be, cap_radius = br, cap_type = bt\<rparr>"
    and "L_lowerArm c = \<lparr>cap_start = JArr ls, cap_end = JArr le, cap_radius = lr, cap_type = lt\<rparr>"
    and "L_elbow c = \<lparr>cap_start = JArr es, cap_end = JArr ee, cap_radius = er, cap_type = et\<rparr>"
    and "L_upperArm c = \<lparr>cap_start = JArr us, cap_end = JArr ue, cap_radius = ur, cap_type = ut\<rparr>"
    and "L_wrist c = \<lparr>ball_offset = JArr wo, ball_radius = wr, ball_type = wt\<rparr>"
  shows "\<exists>p. convert_config c = Some p
           \<and> ip_dh p = padded 4 (dh c) \<and> length (ip_dh p) = 4
           \<and> ip_platformGeometry p = padded 6 pr @ padded 4 pg @ padded 3 po
           \<and> length (ip_platformGeometry p) = 13
           \<and> ip_headGeometry p = padded 6 hr @ padded 4 hg @ padded 3 ho
           \<and> length (ip_headGeometry p) = 13
           \<and> ip_truckGeometry p = padded 6 tr @ padded 4 tg @ padded 3 to
           \<and> length (ip_truckGeometry p) = 13
           \<and> ip_baseGeometry p = padded 3 bs @ padded 3 be @ [br]
           \<and> length (ip_baseGeometry p) = 7
           \<and> ip_lowerArmGeometry p = padded 3 ls @ padded 3 le @ [lr]
           \<and> length (ip_lowerArmGeometry p) = 7
           \<and> ip_elbowGeometry p = padded 3 es @ padded 3 ee @ [er]
           \<and> length (ip_elbowGeometry p) = 7
           \<and> ip_upperArmGeometry p = padded 3 us @ padded 3 ue @ [ur]
           \<and> length (ip_upperArmGeometry p) = 7
           \<and> ip_wristGeometry p = padded 3 wo @ [wr]
           \<and> length (ip_wristGeometry p) = 4"
proof -
  have loz: "build_lozenge_params (platform c) = Some (padded 6 pr @ padded 4 pg @ padded 3 po)"
    "build_lozenge_params (head c) = Some (padded 6 hr @ padded 4 hg @ padded 3 ho)"
    "build_lozenge_params (truck c) = Some (padded 6 tr @ padded 4 tg @ padded 3 to)"
    using assms(1-3) by (simp_all add: build_lozenge_params_arrays)
  have cap: "build_capsule_params (L_base c) = Some (padded 3 bs @ padded 3 be @ [br])"
    "build_capsule_params (L_lowerArm c) = Some (padded 3 ls @ padded 3 le @ [lr])"
    "build_capsule_params (L_elbow c) = Some (padded 3 es @ padded 3 ee @ [er])"
    "build_capsule_params (L_upperArm c) = Some (padded 3 us @ padded 3 ue @ [ur])"
    using assms(4-7) by (simp_all add: build_capsule_params_arrays)
  have wrist: "build_wrist_params (L_wrist c) = Some (padded 3 wo @ [wr])"
    using assms(8) by (simp add: build_wrist_params_arrays)
  have len: "\<And>n xs. min (length xs) n + (n - length xs) = n"
    by simp
  show ?thesis
    unfolding convert_config_def loz cap wrist
    by (simp add: Let_def len)
qed

theorem marshaller_fixed_arity_witness:
  "\<exists>p. convert_config (snd (read_dual_arm_self_collision_model_from_json
                               (Parsed sample_document) new_DualArmColliderConfiguration)) = Some p
     \<and> ip_dh p = [JNum 1, JNum 0, JNum 0, JNum 2]
     \<and> ip_platformGeometry p =
         [JNum 1, JNum 2, JNum 3, JNum 4, JNum 5, JNum 6, JNum 7, JNum 8, JNum 9, JNum 10,
          JNum 11, JNum 12, JNum 13]
     \<and> ip_truckGeometry p =
         [JNum 0, JNum 0, JNum 0, JNum 0, JNum 0, JNum 0, JNum 7, JNum 8, JNum 0, JNum 0,
          JNum 0, JNum 0, JNum 0]
     \<and> length (ip_headGeometry p) = 13
     \<and> ip_baseGeometry p = [JNum 1, JNum 2, JNum 3, JNum 0, JNum 0, JNum 0, JNum 5]
     \<and> ip_wristGeometry p = [JNum 1, JNum 0, JNum 0, JNum 2]"
proof -
  let ?c = "snd (read_dual_arm_self_collision_model_from_json
                   (Parsed sample_document) new_DualArmColliderConfiguration)"
  have h1: "platform ?c =
      \<lparr>loz_ref2local_frame = JArr [JNum 1, JNum 2, JNum 3, JNum 4, JNum 5, JNum 6],
       loz_offset = JArr [JNum 11, JNum 12, JNum 13],
       loz_geometry = JArr [JNum 7, JNum 8, JNum 9, JNum 10], loz_type = JStr []\<rparr>"
    by (simp add: sample_loads)
  have h2: "head ?c =
      \<lparr>loz_ref2local_frame = JArr [], loz_offset = JArr [], loz_geometry = JArr [],
       loz_type = JStr []\<rparr>"
    by (simp add: sample_loads)
  have h3: "truck ?c =
      \<lparr>loz_ref2local_frame = JArr [], loz_offset = JArr [],
       loz_geometry = JArr [JNum 7, JNum 8], loz_type = JStr []\<rparr>"
    by (simp add: sample_loads)
  have h4: "L_base ?c =
      \<lparr>cap_start = JArr [JNum 1, JNum 2, JNum 3, JNum 4], cap_end = JArr [],
       cap_radius = JNum 5, cap_type = JStr []\<rparr>"
    by (simp add: sample_loads)
  have h5: "L_lowerArm ?c =
      \<lparr>cap_start = JArr [], cap_end = JArr [], cap_radius = JNum 0, cap_type = JStr []\<rparr>"
    and h6: "L_elbow ?c =
      \<lparr>cap_start = JArr [], cap_end = JArr [], cap_radius = JNum 0, cap_type = JStr []\<rparr>"
    and h7: "L_upperArm ?c =
      \<lparr>cap_start = JArr [], cap_end = JArr [], cap_radius = JNum 0, cap_type = JStr []\<rparr>"
    by (simp_all add: sample_loads)
  have h8: "L_wrist ?c = \<lparr>ball_offset = JArr [JNum 1], ball_radius = JNum 2, ball_type = JStr []\<rparr>"
    by (simp add: sample_loads)
  have dh: "dh ?c = [JNum 1, JNum 0, JNum 0, JNum 2]"
    by (simp add: sample_loads)
  from marshaller_fixed_arity [OF h1 h2 h3 h4 h5 h6 h7 h8]
  obtain p where "convert_config ?c = Some p"
    "ip_dh p = padded 4 (dh ?c)"
    "ip_platformGeometry p = padded 6 [JNum 1, JNum 2, JNum 3, JNum 4, JNum 5, JNum 6]
        @ padded 4 [JNum 7, JNum 8, JNum 9, JNum 10] @ padded 3 [JNum 11, JNum 12, JNum 13]"
    "ip_truckGeometry p = padded 6 [] @ padded 4 [JNum 7, JNum 8] @ padded 3 []"
    "length (ip_headGeometry p) = 13"
    "ip_baseGeometry p = padded 3 [JNum 1, JNum 2, JNum 3, JNum 4] @ padded 3 [] @ [JNum 5]"
    "ip_wristGeometry p = padded 3 [JNum 1] @ [JNum 2]"
    by blast
  then show ?thesis
    by (intro exI [of _ p]) (simp add: dh numeral_eq_Suc)
qed


section \<open>The server, per message\<close>

lemma range_12: "[0..<12] = [0, 1, 2, 3, 4, 5, 6, 7, 8, 9, 10, 11]"
  by (simp add: upt_rec)

lemma small_number_stored: "\<bar>r\<bar> \<le> 1000 \<Longrightarrow> double_field (JNum r) = Some r"
proof -
  assume r: "\<bar>r\<bar> \<le> 1000"
  have "(2::real) ^ 1024 = 2 ^ 54 * 2 ^ 970"
    by (simp add: power_add [symmetric])
  then have "double_overflow = (2 ^ 54 - 1) * 2 ^ 970"
    by (simp add: double_overflow_def algebra_simps)
  moreover have "(1000::real) < 2 ^ 54 - 1"
    by simp
  moreover have "(1::real) \<le> 2 ^ 970"
    by simp
  ultimately have "1000 < double_overflow"
    by (metis less_le_trans mult.right_neutral mult_left_mono less_imp_le
        order_less_trans zero_less_numeral)
  with r show ?thesis by simp
qed

lemma update_loop_accepted:
  assumes "\<forall>i\<in>set idx. i < length xs \<and> i < length ys
             \<and> double_field (xs ! i) \<noteq> None \<and> double_field (ys ! i) \<noteq> None"
  shows "update_loop idx (JArr xs) (JArr ys) (pos, vel) =
           (True, (\<lambda>i. if i \<in> set idx then the (double_field (xs ! i)) else pos i),
                  (\<lambda>i. if i \<in> set idx then the (double_field (ys ! i)) else vel i))"
  using assms
proof (induction idx arbitrary: pos vel)
  case Nil
  then show ?case by simp
next
  case (Cons i rest)
  then obtain p v where i: "i < length xs" "i < length ys"
    "double_field (xs ! i) = Some p" "double_field (ys ! i) = Some v"
    by auto
  from Cons.prems have rest: "\<forall>j\<in>set rest. j < length xs \<and> j < length ys
             \<and> double_field (xs ! j) \<noteq> None \<and> double_field (ys ! j) \<noteq> None"
    by simp
  have "update_loop (i # rest) (JArr xs) (JArr ys) (pos, vel) =
        update_loop rest (JArr xs) (JArr ys) (pos(i := p), vel(i := v))"
    using i by simp
  also have "\<dots> = (True, (\<lambda>j. if j \<in> set rest then the (double_field (xs ! j)) else (pos(i := p)) j),
                         (\<lambda>j. if j \<in> set rest then the (double_field (ys ! j)) else (vel(i := v)) j))"
    by (rule Cons.IH [OF rest])
  also have "\<dots> = (True, (\<lambda>j. if j \<in> set (i # rest) then the (double_field (xs ! j)) else pos j),
                         (\<lambda>j. if j \<in> set (i # rest) then the (double_field (ys ! j)) else vel j))"
    using i(3,4) by (auto simp: fun_eq_iff)
  finally show ?case .
qed

text \<open>
  C6, as amended. For a telemetry message whose two vectors are arrays of at least twelve
  entries, the first twelve of each being values that a double field accepts (a number
  below \<open>2 ^ 1024 - 2 ^ 970\<close> in magnitude, or a boolean), \<open>update_joints\<close> completes and
  every one of the 24 entries of the joint state holds the value of that message at its
  index, as the field stores it.
\<close>

theorem update_joints_wholesale:
  assumes "12 \<le> length xs" and "12 \<le> length ys"
    and "\<forall>x\<in>set (take 12 xs). double_field x \<noteq> None"
    and "\<forall>y\<in>set (take 12 ys). double_field y \<noteq> None"
  shows "snd (update_joints (JArr xs) (JArr ys) s)
       \<and> (\<forall>i<12. double_field (xs ! i) = Some (joint_pos (fst (update_joints (JArr xs) (JArr ys) s)) i)
                 \<and> double_field (ys ! i) = Some (joint_vel (fst (update_joints (JArr xs) (JArr ys) s)) i))"
proof -
  have acc: "double_field (xs ! i) \<noteq> None \<and> double_field (ys ! i) \<noteq> None" if "i < 12" for i
  proof -
    from that assms(1,2) have "xs ! i \<in> set (take 12 xs)" "ys ! i \<in> set (take 12 ys)"
      by (auto simp: in_set_conv_nth intro!: exI [of _ i])
    with assms(3,4) show ?thesis by blast
  qed
  then have "\<forall>i\<in>set [0..<12]. i < length xs \<and> i < length ys
             \<and> double_field (xs ! i) \<noteq> None \<and> double_field (ys ! i) \<noteq> None"
    using assms(1,2) by auto
  from update_loop_accepted [OF this]
  have "update_joints (JArr xs) (JArr ys) s =
          (s\<lparr>joint_pos := (\<lambda>i. if i \<in> set [0..<12] then the (double_field (xs ! i)) else joint_pos s i),
             joint_vel := (\<lambda>i. if i \<in> set [0..<12] then the (double_field (ys ! i)) else joint_vel s i)\<rparr>,
           True)"
    by (simp add: update_joints_def)
  with acc show ?thesis by auto
qed

theorem update_joints_wholesale_witness:
  "snd (update_joints
          (JArr [JNum 1, JBool True, JNum 3, JNum 4, JNum 5, JNum 6, JNum 7, JNum 8, JNum 9,
                 JNum 10, JNum 11, JNum 12, JNum 13])
          (JArr (map JNum [21, 22, 23, 24, 25, 26, 27, 28, 29, 30, 31, 32]))
          (new_CollisionDetectionServer (JObj [])))
   \<and> joint_pos (fst (update_joints
          (JArr [JNum 1, JBool True, JNum 3, JNum 4, JNum 5, JNum 6, JNum 7, JNum 8, JNum 9,
                 JNum 10, JNum 11, JNum 12, JNum 13])
          (JArr (map JNum [21, 22, 23, 24, 25, 26, 27, 28, 29, 30, 31, 32]))
          (new_CollisionDetectionServer (JObj [])))) 1 = 1
   \<and> joint_pos (fst (update_joints
          (JArr [JNum 1, JBool True, JNum 3, JNum 4, JNum 5, JNum 6, JNum 7, JNum 8, JNum 9,
                 JNum 10, JNum 11, JNum 12, JNum 13])
          (JArr (map JNum [21, 22, 23, 24, 25, 26, 27, 28, 29, 30, 31, 32]))
          (new_CollisionDetectionServer (JObj [])))) 11 = 12
   \<and> joint_vel (fst (update_joints
          (JArr [JNum 1, JBool True, JNum 3, JNum 4, JNum 5, JNum 6, JNum 7, JNum 8, JNum 9,
                 JNum 10, JNum 11, JNum 12, JNum 13])
          (JArr (map JNum [21, 22, 23, 24, 25, 26, 27, 28, 29, 30, 31, 32]))
          (new_CollisionDetectionServer (JObj [])))) 0 = 21"
proof -
  let ?xs = "[JNum 1, JBool True, JNum 3, JNum 4, JNum 5, JNum 6, JNum 7, JNum 8, JNum 9,
              JNum 10, JNum 11, JNum 12, JNum 13]"
  let ?ys = "map JNum [21, 22, 23, 24, 25, 26, 27, 28, 29, 30, 31, 32]"
  let ?s = "new_CollisionDetectionServer (JObj [])"
  have h: "12 \<le> length ?xs" "12 \<le> length ?ys"
    "\<forall>x\<in>set (take 12 ?xs). double_field x \<noteq> None"
    "\<forall>y\<in>set (take 12 ?ys). double_field y \<noteq> None"
    by (simp_all add: small_number_stored del: double_field.simps(1))
  from update_joints_wholesale [OF h, of ?s]
  have ok: "snd (update_joints (JArr ?xs) (JArr ?ys) ?s)"
    and all: "\<And>i. i < 12 \<Longrightarrow>
      double_field (?xs ! i) = Some (joint_pos (fst (update_joints (JArr ?xs) (JArr ?ys) ?s)) i)
      \<and> double_field (?ys ! i) = Some (joint_vel (fst (update_joints (JArr ?xs) (JArr ?ys) ?s)) i)"
    by blast+
  from all [of 1] all [of 11] all [of 0] ok show ?thesis
    by (simp add: small_number_stored del: double_field.simps(1))
qed

text \<open>
  The claim as stated fails: a \<open>joint_data\<close> message with five positions and five
  velocities overwrites the entries 0 to 4 and leaves the entries 5 to 11 as they were.
\<close>

theorem update_joints_partial:
  "\<not> snd (update_joints (JArr (map JNum [1, 2, 3, 4, 5])) (JArr (map JNum [21, 22, 23, 24, 25]))
             ((new_CollisionDetectionServer (JObj []))\<lparr>joint_pos := (\<lambda>_. 9), joint_vel := (\<lambda>_. 9)\<rparr>))
   \<and> joint_pos (fst (update_joints (JArr (map JNum [1, 2, 3, 4, 5])) (JArr (map JNum [21, 22, 23, 24, 25]))
             ((new_CollisionDetectionServer (JObj []))\<lparr>joint_pos := (\<lambda>_. 9), joint_vel := (\<lambda>_. 9)\<rparr>))) 4 = 5
   \<and> joint_pos (fst (update_joints (JArr (map JNum [1, 2, 3, 4, 5])) (JArr (map JNum [21, 22, 23, 24, 25]))
             ((new_CollisionDetectionServer (JObj []))\<lparr>joint_pos := (\<lambda>_. 9), joint_vel := (\<lambda>_. 9)\<rparr>))) 5 = 9
   \<and> joint_vel (fst (update_joints (JArr (map JNum [1, 2, 3, 4, 5])) (JArr (map JNum [21, 22, 23, 24, 25]))
             ((new_CollisionDetectionServer (JObj []))\<lparr>joint_pos := (\<lambda>_. 9), joint_vel := (\<lambda>_. 9)\<rparr>))) 11 = 9"
  by (simp add: update_joints_def range_12 new_CollisionDetectionServer_def small_number_stored
      del: double_field.simps(1))

text \<open>
  An int too large for a double stops the loop in the same way: with \<open>2 ^ 1024\<close> at
  index 5 of twelve positions, the entries from 5 on keep their old values.
\<close>

lemma update_joints_overflow_stops:
  "\<not> snd (update_joints
            (JArr [JNum 1, JNum 2, JNum 3, JNum 4, JNum 5, JNum (2 ^ 1024), JNum 7, JNum 8,
                   JNum 9, JNum 10, JNum 11, JNum 12])
            (JArr (map JNum [21, 22, 23, 24, 25, 26, 27, 28, 29, 30, 31, 32]))
            ((new_CollisionDetectionServer (JObj []))\<lparr>joint_pos := (\<lambda>_. 9)\<rparr>))
   \<and> joint_pos (fst (update_joints
            (JArr [JNum 1, JNum 2, JNum 3, JNum 4, JNum 5, JNum (2 ^ 1024), JNum 7, JNum 8,
                   JNum 9, JNum 10, JNum 11, JNum 12])
            (JArr (map JNum [21, 22, 23, 24, 25, 26, 27, 28, 29, 30, 31, 32]))
            ((new_CollisionDetectionServer (JObj []))\<lparr>joint_pos := (\<lambda>_. 9)\<rparr>))) 11 = 9"
proof -
  have "double_field (JNum (2 ^ 1024)) = None"
    by (simp add: double_overflow_def)
  then show ?thesis
    by (simp add: update_joints_def range_12 new_CollisionDetectionServer_def
        small_number_stored del: double_field.simps(1))
qed

lemma handle_message_joint_data:
  assumes "map_of d ''type'' = Some (JStr ''joint_data'')"
    and "map_of d ''joint_positions'' = Some jp"
    and "map_of d ''joint_velocities'' = Some jv"
  shows "handle_message chk (Json (JObj d)) s =
           (fst (check_collision chk (fst (update_joints jp jv s))),
            Reply (JObj [(''type'', JStr ''collision_result''),
                         (''result'', snd (check_collision chk (fst (update_joints jp jv s))))]))"
  using assms by (simp add: handle_message_def split: prod.splits)

lemma handle_client_reply:
  assumes "it_running it" and "it_recv it = RecvData p" and "\<not> it_send_raises it"
    and "handle_message (it_check it) p s = (s', Reply r)"
  shows "handle_client (it # rest) s =
           (case handle_client rest s' of (s'', sent, cn) \<Rightarrow> (s'', r # sent, cn))"
  using assms by simp

lemma handle_client_no_reply:
  assumes "it_running it" and "it_recv it = RecvData p"
    and "handle_message (it_check it) p s = (s', NoReply)"
  shows "handle_client (it # rest) s = handle_client rest s'"
  using assms by simp

lemma check_collision_fields:
  "\<exists>b ps dist.
     py_item (snd (check_collision chk s)) ''collision_detected'' = Some (JBool b)
     \<and> py_item (snd (check_collision chk s)) ''colliding_pairs'' = Some (JArr (map pair_json ps))
     \<and> py_item (snd (check_collision chk s)) ''min_distance'' = Some (JNum dist)
     \<and> (chk = CheckReturns b ps dist \<or> (\<exists>e. chk = CheckRaises e) \<and> \<not> b \<and> ps = [] \<and> dist = 0)"
proof (cases chk)
  case (CheckRaises e)
  then show ?thesis
    by (intro exI [of _ False] exI [of _ "[]"] exI [of _ 0]) simp
next
  case (CheckReturns b ps dist)
  then show ?thesis
    by (intro exI [of _ b] exI [of _ ps] exI [of _ dist]) simp
qed
lemma pass_fields:
  "it_running (pass p chk)" "it_recv (pass p chk) = RecvData p"
  "it_check (pass p chk) = chk" "\<not> it_send_raises (pass p chk)"
  by (simp_all add: pass_def)

lemma sample_telemetry_fields:
  "\<exists>d jp jv. sample_telemetry = JObj d
     \<and> map_of d ''type'' = Some (JStr ''joint_data'')
     \<and> map_of d ''joint_positions'' = Some jp
     \<and> map_of d ''joint_velocities'' = Some jv"
  by (simp add: sample_telemetry_def joint_data_message_def)

text \<open>
  C1, as amended. A \<open>joint_data\<close> message that carries \<open>joint_positions\<close> and
  \<open>joint_velocities\<close> (twelve-element vectors in particular) is answered, when the send
  succeeds, by one \<open>collision_result\<close> message whose result holds a boolean
  \<open>collision_detected\<close>, a list of pairs and a \<open>min_distance\<close>, and the loop goes on.
  The three values are the ones the engine returned, or False, the empty list and 0 when
  the engine raised; so \<open>min_distance\<close> is non-negative whenever the engine's distance is.
\<close>

theorem joint_data_reply:
  assumes "it_running it" and "it_recv it = RecvData (Json (JObj d))" and "\<not> it_send_raises it"
    and "map_of d ''type'' = Some (JStr ''joint_data'')"
    and "map_of d ''joint_positions'' = Some jp"
    and "map_of d ''joint_velocities'' = Some jv"
  shows "\<exists>s' result b ps dist.
           handle_client (it # rest) s =
             (case handle_client rest s' of
                (s'', sent, cn) \<Rightarrow>
                  (s'', JObj [(''type'', JStr ''collision_result''), (''result'', result)] # sent, cn))
           \<and> py_item result ''collision_detected'' = Some (JBool b)
           \<and> py_item result ''colliding_pairs'' = Some (JArr (map pair_json ps))
           \<and> py_item result ''min_distance'' = Some (JNum dist)
           \<and> (it_check it = CheckReturns b ps dist
                \<or> (\<exists>e. it_check it = CheckRaises e) \<and> \<not> b \<and> ps = [] \<and> dist = 0)
           \<and> ((\<forall>b' ps' x. it_check it = CheckReturns b' ps' x \<longrightarrow> 0 \<le> x) \<longrightarrow> 0 \<le> dist)"
proof -
  let ?s1 = "fst (update_joints jp jv s)"
  let ?s' = "fst (check_collision (it_check it) ?s1)"
  let ?result = "snd (check_collision (it_check it) ?s1)"
  have msg: "handle_message (it_check it) (Json (JObj d)) s =
               (?s', Reply (JObj [(''type'', JStr ''collision_result''), (''result'', ?result)]))"
    using assms(4-6) by (rule handle_message_joint_data)
  have loop: "handle_client (it # rest) s =
      (case handle_client rest ?s' of
         (s'', sent, cn) \<Rightarrow>
           (s'', JObj [(''type'', JStr ''collision_result''), (''result'', ?result)] # sent, cn))"
    using assms(1-3) msg by (rule handle_client_reply)
  from check_collision_fields [of "it_check it" ?s1]
  obtain b ps dist where f:
    "py_item ?result ''collision_detected'' = Some (JBool b)"
    "py_item ?result ''colliding_pairs'' = Some (JArr (map pair_json ps))"
    "py_item ?result ''min_distance'' = Some (JNum dist)"
    "it_check it = CheckReturns b ps dist
       \<or> (\<exists>e. it_check it = CheckRaises e) \<and> \<not> b \<and> ps = [] \<and> dist = 0"
    by blast
  from f(4) have "(\<forall>b' ps' x. it_check it = CheckReturns b' ps' x \<longrightarrow> 0 \<le> x) \<longrightarrow> 0 \<le> dist"
    by auto
  with loop f show ?thesis by blast
qed

theorem joint_data_reply_witness:
  "\<exists>result.
     fst (snd (handle_client [pass (Json sample_telemetry) (CheckReturns True [(6, 16)] (1 / 100))]
                 (new_CollisionDetectionServer (JObj []))))
       = [JObj [(''type'', JStr ''collision_result''), (''result'', result)]]
     \<and> py_item result ''collision_detected'' = Some (JBool True)
     \<and> py_item result ''colliding_pairs'' = Some (JArr [JArr [JNum 6, JNum 16]])
     \<and> py_item result ''min_distance'' = Some (JNum (1 / 100))"
proof -
  let ?it = "pass (Json sample_telemetry) (CheckReturns True [(6, 16)] (1 / 100))"
  obtain d jp jv where d: "sample_telemetry = JObj d"
    "map_of d ''type'' = Some (JStr ''joint_data'')"
    "map_of d ''joint_positions'' = Some jp"
    "map_of d ''joint_velocities'' = Some jv"
    using sample_telemetry_fields by blast
  have h: "it_running ?it" "it_recv ?it = RecvData (Json (JObj d))" "\<not> it_send_raises ?it"
    by (simp_all add: pass_fields d(1))
  from joint_data_reply [OF h d(2-4), of "[]" "new_CollisionDetectionServer (JObj [])"]
  obtain s' result b ps dist where r:
    "handle_client [?it] (new_CollisionDetectionServer (JObj [])) =
       (case handle_client [] s' of
          (s'', sent, cn) \<Rightarrow>
            (s'', JObj [(''type'', JStr ''collision_result''), (''result'', result)] # sent, cn))"
    "py_item result ''collision_detected'' = Some (JBool b)"
    "py_item result ''colliding_pairs'' = Some (JArr (map pair_json ps))"
    "py_item result ''min_distance'' = Some (JNum dist)"
    "it_check ?it = CheckReturns b ps dist
       \<or> (\<exists>e. it_check ?it = CheckRaises e) \<and> \<not> b \<and> ps = [] \<and> dist = 0"
    by blast
  from r(5) have v: "b = True" "ps = [(6, 16)]" "dist = 1 / 100"
    by (simp_all add: pass_fields)
  from r(1) have "fst (snd (handle_client [?it] (new_CollisionDetectionServer (JObj []))))
      = [JObj [(''type'', JStr ''collision_result''), (''result'', result)]]"
    by (simp del: handle_client.simps(2))
  with r(2-4) v show ?thesis
    by (intro exI [of _ result]) (simp add: pair_json_def del: handle_client.simps)
qed

text \<open>
  The claim as stated fails: the engine's contract gives the distance as a float, and a
  negative one is passed on unchanged.
\<close>

theorem negative_min_distance_reply:
  "fst (snd (handle_client [pass (Json sample_telemetry) (CheckReturns False [] (- 1))]
               (new_CollisionDetectionServer (JObj []))))
     = [JObj [(''type'', JStr ''collision_result''),
              (''result'', JObj [(''collision_detected'', JBool False),
                                 (''colliding_pairs'', JArr []),
                                 (''min_distance'', JNum (- 1))])]]"
proof -
  obtain d jp jv where d: "sample_telemetry = JObj d"
    "map_of d ''type'' = Some (JStr ''joint_data'')"
    "map_of d ''joint_positions'' = Some jp"
    "map_of d ''joint_velocities'' = Some jv"
    using sample_telemetry_fields by blast
  show ?thesis
    by (simp add: pass_fields d(1) handle_message_joint_data [OF d(2-4)])
qed

text \<open>
  C2, as amended. While the server runs: a text that is not JSON is answered with the
  error reply \<open>Invalid JSON format\<close> and the loop goes on with the server unchanged; a
  JSON object whose \<open>type\<close> is neither \<open>joint_data\<close> nor \<open>ping\<close> gets no reply, and
  the loop goes on with the server unchanged. In both cases the requests that follow on
  the connection are handled as if the bad message had not arrived.
\<close>

theorem bad_message_keeps_connection:
  assumes "it_running it"
  shows "(it_recv it = RecvData BadJson \<and> \<not> it_send_raises it \<longrightarrow>
            handle_client (it # rest) s =
              (case handle_client rest s of
                 (s', sent, cn) \<Rightarrow> (s', JObj [(''error'', JStr ''Invalid JSON format'')] # sent, cn)))
       \<and> (it_recv it = RecvData (Json (JObj d))
            \<and> map_of d ''type'' \<noteq> Some (JStr ''joint_data'')
            \<and> map_of d ''type'' \<noteq> Some (JStr ''ping'') \<longrightarrow>
            handle_client (it # rest) s = handle_client rest s)"
  using assms by (simp add: handle_message_def)

theorem bad_message_keeps_connection_witness:
  "handle_client [pass BadJson (CheckRaises []), pass (Json (JObj [(''type'', JStr ''ping'')])) (CheckRaises [])]
     (new_CollisionDetectionServer (JObj []))
   = (new_CollisionDetectionServer (JObj []),
      [JObj [(''error'', JStr ''Invalid JSON format'')], JObj [(''type'', JStr ''pong'')]], Open)
   \<and> handle_client [pass (Json (JObj [(''type'', JStr ''reset'')])) (CheckRaises []),
                    pass (Json (JObj [(''type'', JStr ''ping'')])) (CheckRaises [])]
     (new_CollisionDetectionServer (JObj []))
   = (new_CollisionDetectionServer (JObj []), [JObj [(''type'', JStr ''pong'')]], Open)"
proof -
  let ?ping = "pass (Json (JObj [(''type'', JStr ''ping'')])) (CheckRaises [])"
  let ?s = "new_CollisionDetectionServer (JObj [])"
  have ping: "handle_client [?ping] ?s = (?s, [JObj [(''type'', JStr ''pong'')]], Open)"
    by (simp add: pass_fields handle_message_def)
  have "it_running (pass BadJson (CheckRaises []))"
    by (simp add: pass_fields)
  from bad_message_keeps_connection [OF this, where rest = "[?ping]" and s = ?s]
  have a: "handle_client [pass BadJson (CheckRaises []), ?ping] ?s =
             (?s, [JObj [(''error'', JStr ''Invalid JSON format'')], JObj [(''type'', JStr ''pong'')]], Open)"
    by (simp add: pass_fields ping del: handle_client.simps)
  have "it_running (pass (Json (JObj [(''type'', JStr ''reset'')])) (CheckRaises []))"
    by (simp add: pass_fields)
  from bad_message_keeps_connection
         [OF this, where rest = "[?ping]" and s = ?s and d = "[(''type'', JStr ''reset'')]"]
  have b: "handle_client [pass (Json (JObj [(''type'', JStr ''reset'')])) (CheckRaises []), ?ping] ?s =
             (?s, [JObj [(''type'', JStr ''pong'')]], Open)"
    by (simp add: pass_fields ping del: handle_client.simps)
  from a b show ?thesis by (simp del: handle_client.simps)
qed

text \<open>
  The claim as stated fails: a message of an unknown type is dropped without any reply.
\<close>

theorem unknown_type_gets_no_reply:
  "handle_client [pass (Json (JObj [(''type'', JStr ''reset'')])) (CheckRaises [])]
     (new_CollisionDetectionServer (JObj []))
   = (new_CollisionDetectionServer (JObj []), [], Open)"
  by (simp add: pass_fields handle_message_def)

text \<open>
  C10. When the engine's check raises, the server still answers a \<open>joint_data\<close> message
  with a \<open>collision_result\<close> whose result reports no collision, no pairs, distance 0
  and the error text, and keeps the connection; the client that receives this reply
  clears its collision flag and stops no arm.
\<close>

theorem engine_failure_fail_open:
  assumes "it_running it" and "it_recv it = RecvData (Json (JObj d))" and "\<not> it_send_raises it"
    and "map_of d ''type'' = Some (JStr ''joint_data'')"
    and "map_of d ''joint_positions'' = Some jp"
    and "map_of d ''joint_velocities'' = Some jv"
    and "it_check it = CheckRaises e"
  shows "handle_client (it # rest) s =
           (case handle_client rest (fst (update_joints jp jv s)) of
              (s'', sent, cn) \<Rightarrow>
                (s'', JObj [(''type'', JStr ''collision_result''),
                            (''result'', JObj [(''collision_detected'', JBool False),
                                               (''colliding_pairs'', JArr []),
                                               (''min_distance'', JNum 0),
                                               (''error'', JStr e)])] # sent, cn))
       \<and> handle_response
            (env\<lparr>response := RecvData (Json
               (JObj [(''type'', JStr ''collision_result''),
                      (''result'', JObj [(''collision_detected'', JBool False),
                                         (''colliding_pairs'', JArr []),
                                         (''min_distance'', JNum 0),
                                         (''error'', JStr e)])]))\<rparr>) c
           = Some (c\<lparr>client_collision_detected := False\<rparr>, [])"
proof -
  have "handle_message (it_check it) (Json (JObj d)) s =
          (fst (update_joints jp jv s),
           Reply (JObj [(''type'', JStr ''collision_result''),
                        (''result'', JObj [(''collision_detected'', JBool False),
                                           (''colliding_pairs'', JArr []),
                                           (''min_distance'', JNum 0),
                                           (''error'', JStr e)])]))"
    using handle_message_joint_data [OF assms(4-6), of "it_check it" s] assms(7) by simp
  from handle_client_reply [OF assms(1-3) this]
  have server: "handle_client (it # rest) s =
           (case handle_client rest (fst (update_joints jp jv s)) of
              (s'', sent, cn) \<Rightarrow>
                (s'', JObj [(''type'', JStr ''collision_result''),
                            (''result'', JObj [(''collision_detected'', JBool False),
                                               (''colliding_pairs'', JArr []),
                                               (''min_distance'', JNum 0),
                                               (''error'', JStr e)])] # sent, cn))" .
  have client: "handle_response
            (env\<lparr>response := RecvData (Json
               (JObj [(''type'', JStr ''collision_result''),
                      (''result'', JObj [(''collision_detected'', JBool False),
                                         (''colliding_pairs'', JArr []),
                                         (''min_distance'', JNum 0),
                                         (''error'', JStr e)])]))\<rparr>) c
           = Some (c\<lparr>client_collision_detected := False\<rparr>, [])"
    by (simp add: handle_response_def handle_collision_result_def dict_get_def)
  from server client show ?thesis by (simp del: handle_client.simps)
qed

theorem engine_failure_fail_open_witness:
  "fst (snd (handle_client [pass (Json sample_telemetry) (CheckRaises ''engine fault'')]
               (new_CollisionDetectionServer (JObj []))))
     = [JObj [(''type'', JStr ''collision_result''),
              (''result'', JObj [(''collision_detected'', JBool False),
                                 (''colliding_pairs'', JArr []),
                                 (''min_distance'', JNum 0),
                                 (''error'', JStr ''engine fault'')])]]
   \<and> snd (snd (handle_client [pass (Json sample_telemetry) (CheckRaises ''engine fault'')]
                 (new_CollisionDetectionServer (JObj [])))) = Open
   \<and> handle_response
        (sample_env (JObj [(''type'', JStr ''collision_result''),
                           (''result'', JObj [(''collision_detected'', JBool False),
                                              (''colliding_pairs'', JArr []),
                                              (''min_distance'', JNum 0),
                                              (''error'', JStr ''engine fault'')])]))
        (new_RobotArmClient True True)
     = Some (new_RobotArmClient True True, [])"
proof -
  let ?it = "pass (Json sample_telemetry) (CheckRaises ''engine fault'')"
  let ?reply = "JObj [(''type'', JStr ''collision_result''),
                      (''result'', JObj [(''collision_detected'', JBool False),
                                         (''colliding_pairs'', JArr []),
                                         (''min_distance'', JNum 0),
                                         (''error'', JStr ''engine fault'')])]"
  obtain d jp jv where d: "sample_telemetry = JObj d"
    "map_of d ''type'' = Some (JStr ''joint_data'')"
    "map_of d ''joint_positions'' = Some jp"
    "map_of d ''joint_velocities'' = Some jv"
    using sample_telemetry_fields by blast
  have h: "it_running ?it" "it_recv ?it = RecvData (Json (JObj d))" "\<not> it_send_raises ?it"
    "it_check ?it = CheckRaises ''engine fault''"
    by (simp_all add: pass_fields d(1))
  have env: "(sample_env ?reply)\<lparr>response := RecvData (Json ?reply)\<rparr> = sample_env ?reply"
    by (simp add: sample_env_def)
  have cl: "(new_RobotArmClient True True)\<lparr>client_collision_detected := False\<rparr>
              = new_RobotArmClient True True"
    by (simp add: new_RobotArmClient_def)
  from engine_failure_fail_open
         [OF h(1-3) d(2-4) h(4), where rest = "[]" and s = "new_CollisionDetectionServer (JObj [])"
             and env = "sample_env ?reply" and c = "new_RobotArmClient True True"]
  show ?thesis
    unfolding env cl by (simp del: handle_client.simps(2))
qed


section \<open>The client\<close>

text \<open>
  C3. When the client receives a \<open>collision_result\<close> whose \<open>collision_detected\<close> is
  true, it sets its collision flag and calls the stop of the left arm if that arm is
  connected, then the stop of the right arm if that arm is connected, whatever either
  stop call returns or raises.
\<close>

theorem emergency_stop_every_connected_arm:
  assumes "response env = RecvData (Json (JObj m))"
    and "map_of m ''type'' = Some (JStr ''collision_result'')"
    and "map_of m ''result'' = Some (JObj r)"
    and "map_of r ''collision_detected'' = Some flag"
    and "truthy flag"
  shows "\<exists>stops.
           handle_response env c = Some (c\<lparr>client_collision_detected := True\<rparr>, stops)
           \<and> map fst stops =
               (if connected (left_arm c)
                then [(boxid (left_arm c), robot_id (left_arm c))] else [])
               @ (if connected (right_arm c)
                  then [(boxid (right_arm c), robot_id (right_arm c))] else [])"
proof -
  have "handle_collision_result env (JObj r) c =
          Some (c\<lparr>client_collision_detected := True\<rparr>,
                emergency_stop env (c\<lparr>client_collision_detected := True\<rparr>))"
    using assms(4,5) by (simp add: handle_collision_result_def dict_get_def)
  then have "handle_response env c =
          Some (c\<lparr>client_collision_detected := True\<rparr>,
                emergency_stop env (c\<lparr>client_collision_detected := True\<rparr>))"
    using assms(1-3) by (simp add: handle_response_def)
  moreover have "map fst (emergency_stop env (c\<lparr>client_collision_detected := True\<rparr>)) =
               (if connected (left_arm c)
                then [(boxid (left_arm c), robot_id (left_arm c))] else [])
               @ (if connected (right_arm c)
                  then [(boxid (right_arm c), robot_id (right_arm c))] else [])"
    by (simp add: emergency_stop_def)
  ultimately show ?thesis by blast
qed

theorem emergency_stop_every_connected_arm_witness:
  "\<exists>stops.
     handle_response
       (sample_env (JObj [(''type'', JStr ''collision_result''),
                          (''result'', JObj [(''collision_detected'', JBool True),
                                             (''colliding_pairs'', JArr [JArr [JNum 6, JNum 16]]),
                                             (''min_distance'', JNum 0)])]))
       (new_RobotArmClient True True)
       = Some ((new_RobotArmClient True True)\<lparr>client_collision_detected := True\<rparr>, stops)
     \<and> map fst stops = [(0, 0), (1, 0)]"
proof -
  let ?r = "[(''collision_detected'', JBool True),
             (''colliding_pairs'', JArr [JArr [JNum 6, JNum 16]]),
             (''min_distance'', JNum 0)]"
  let ?m = "[(''type'', JStr ''collision_result''), (''result'', JObj ?r)]"
  have h: "response (sample_env (JObj ?m)) = RecvData (Json (JObj ?m))"
    "map_of ?m ''type'' = Some (JStr ''collision_result'')"
    "map_of ?m ''result'' = Some (JObj ?r)"
    "map_of ?r ''collision_detected'' = Some (JBool True)"
    "truthy (JBool True)"
    by (simp_all add: sample_env_def)
  from emergency_stop_every_connected_arm [OF h, of "new_RobotArmClient True True"]
  show ?thesis
    by (simp add: new_RobotArmClient_def)
qed

lemma those_map_Some: "those (map Some xs) = Some xs"
  by (induction xs) simp_all

lemma first_joint_offset:
  assumes "length ds = 6"
  shows "(map radians ds)[0 := map radians ds ! 0 + pi] =
           map (\<lambda>i. ds ! i * pi / 180 + (if i = 0 then pi else 0)) [0..<6]"
proof (rule nth_equalityI)
  show "length ((map radians ds)[0 := map radians ds ! 0 + pi]) =
        length (map (\<lambda>i. ds ! i * pi / 180 + (if i = 0 then pi else 0)) [0..<6])"
    using assms by simp
next
  fix i
  assume "i < length ((map radians ds)[0 := map radians ds ! 0 + pi])"
  then have i: "i < 6" using assms by simp
  then show "(map radians ds)[0 := map radians ds ! 0 + pi] ! i =
        map (\<lambda>i. ds ! i * pi / 180 + (if i = 0 then pi else 0)) [0..<6] ! i"
    using assms by (cases "i = 0") (simp_all add: radians_def nth_list_update)
qed

lemma read_joint_positions_ok:
  assumes "connected arm" and "length ds = 6"
  shows "read_joint_positions (ReadReturns 0 (map Some ds)) arm =
           Some (map (\<lambda>i. ds ! i * pi / 180 + (if i = 0 then pi else 0)) [0..<6])"
proof -
  have "read_joint_positions (ReadReturns 0 (map Some ds)) arm =
          Some ((map radians ds)[0 := map radians ds ! 0 + pi])"
    using assms by (simp add: read_joint_positions_def those_map_Some Let_def)
  then show ?thesis
    by (simp only: first_joint_offset [OF assms(2)])
qed

lemma read_joint_velocities_ok:
  assumes "connected arm" and "length vs = 6"
  shows "read_joint_velocities (ReadReturns 0 (map Some vs)) arm = Some vs"
  using assms by (simp add: read_joint_velocities_def those_map_Some)

text \<open>
  C7. For a connected arm whose position read returns code 0 and six numeric values, each
  position is multiplied by \<open>pi / 180\<close> and the first one gets \<open>pi\<close> added; the six
  velocities are returned as read. The request sent carries the twelve positions so
  converted and the twelve velocities unchanged.
\<close>

theorem positions_in_radians_velocities_as_read:
  assumes "connected (left_arm c)" and "connected (right_arm c)"
    and "left_pos_read env = ReadReturns 0 (map Some lds)" and "length lds = 6"
    and "right_pos_read env = ReadReturns 0 (map Some rds)" and "length rds = 6"
    and "left_vel_read env = ReadReturns 0 (map Some lvs)" and "length lvs = 6"
    and "right_vel_read env = ReadReturns 0 (map Some rvs)" and "length rvs = 6"
    and "\<not> sendall_raises env"
  shows "read_joint_positions (left_pos_read env) (left_arm c) =
           Some (map (\<lambda>i. lds ! i * pi / 180 + (if i = 0 then pi else 0)) [0..<6])
       \<and> read_joint_positions (right_pos_read env) (right_arm c) =
           Some (map (\<lambda>i. rds ! i * pi / 180 + (if i = 0 then pi else 0)) [0..<6])
       \<and> read_joint_velocities (left_vel_read env) (left_arm c) = Some lvs
       \<and> read_joint_velocities (right_vel_read env) (right_arm c) = Some rvs
       \<and> fst (snd (snd (send_joint_data env c))) =
           Some (JObj [(''type'', JStr ''joint_data''),
                       (''joint_positions'',
                          JArr (map JNum
                            (map (\<lambda>i. lds ! i * pi / 180 + (if i = 0 then pi else 0)) [0..<6]
                             @ map (\<lambda>i. rds ! i * pi / 180 + (if i = 0 then pi else 0)) [0..<6]))),
                       (''joint_velocities'', JArr (map JNum (lvs @ rvs))),
                       (''units'', JObj [(''positions'', JStr ''radians''),
                                         (''velocities'', JStr ''degrees_per_second'')])])"
proof -
  have lp: "read_joint_positions (left_pos_read env) (left_arm c) =
           Some (map (\<lambda>i. lds ! i * pi / 180 + (if i = 0 then pi else 0)) [0..<6])"
    unfolding assms(3) using assms(1,4) by (rule read_joint_positions_ok)
  have rp: "read_joint_positions (right_pos_read env) (right_arm c) =
           Some (map (\<lambda>i. rds ! i * pi / 180 + (if i = 0 then pi else 0)) [0..<6])"
    unfolding assms(5) using assms(2,6) by (rule read_joint_positions_ok)
  have lv: "read_joint_velocities (left_vel_read env) (left_arm c) = Some lvs"
    unfolding assms(7) using assms(1,8) by (rule read_joint_velocities_ok)
  have rv: "read_joint_velocities (right_vel_read env) (right_arm c) = Some rvs"
    unfolding assms(9) using assms(2,10) by (rule read_joint_velocities_ok)
  have "fst (snd (snd (send_joint_data env c))) =
          Some (joint_data_message
                  (map (\<lambda>i. lds ! i * pi / 180 + (if i = 0 then pi else 0)) [0..<6])
                  (map (\<lambda>i. rds ! i * pi / 180 + (if i = 0 then pi else 0)) [0..<6]) lvs rvs)"
    using assms(1,2,11)
    by (simp add: send_joint_data_def lp rp lv rv split: option.splits del: upt_Suc map_map)
  then show ?thesis
    using lp rp lv rv by (simp add: joint_data_message_def del: upt_Suc map_map map_append)
qed

lemma range_6: "[0..<6] = [0, 1, 2, 3, 4, 5]"
  by (simp add: upt_rec)

theorem positions_in_radians_velocities_as_read_witness:
  "read_joint_positions (ReadReturns 0 (map Some [0, 90, 180, - 90, 45, 30]))
      (left_arm (new_RobotArmClient True True))
     = Some [pi, pi / 2, pi, - pi / 2, pi / 4, pi / 6]
   \<and> read_joint_velocities (ReadReturns 0 (map Some [1, 2, 3, 4, 5, 6]))
      (left_arm (new_RobotArmClient True True))
     = Some [1, 2, 3, 4, 5, 6]
   \<and> fst (snd (snd (send_joint_data (sample_env JNull) (new_RobotArmClient True True)))) =
       Some (JObj [(''type'', JStr ''joint_data''),
                   (''joint_positions'',
                      JArr [JNum pi, JNum (pi / 2), JNum pi, JNum (- pi / 2), JNum (pi / 4),
                            JNum (pi / 6), JNum (2 * pi), JNum 0, JNum 0, JNum 0, JNum 0, JNum 0]),
                   (''joint_velocities'',
                      JArr [JNum 1, JNum 2, JNum 3, JNum 4, JNum 5, JNum 6,
                            JNum 7, JNum 8, JNum 9, JNum 10, JNum 11, JNum 12]),
                   (''units'', JObj [(''positions'', JStr ''radians''),
                                     (''velocities'', JStr ''degrees_per_second'')])])"
proof -
  let ?c = "new_RobotArmClient True True"
  let ?env = "sample_env JNull"
  have h: "connected (left_arm ?c)" "connected (right_arm ?c)"
    "left_pos_read ?env = ReadReturns 0 (map Some [0, 90, 180, - 90, 45, 30])"
    "length [0, 90, 180, - 90, 45, 30 :: real] = 6"
    "right_pos_read ?env = ReadReturns 0 (map Some [180, 0, 0, 0, 0, 0])"
    "length [180, 0, 0, 0, 0, 0 :: real] = 6"
    "left_vel_read ?env = ReadReturns 0 (map Some [1, 2, 3, 4, 5, 6])"
    "length [1, 2, 3, 4, 5, 6 :: real] = 6"
    "right_vel_read ?env = ReadReturns 0 (map Some [7, 8, 9, 10, 11, 12])"
    "length [7, 8, 9, 10, 11, 12 :: real] = 6"
    "\<not> sendall_raises ?env"
    by (simp_all add: new_RobotArmClient_def sample_env_def)
  from positions_in_radians_velocities_as_read [OF h]
  show ?thesis
    by (simp add: range_6 h(3,7))
qed


section \<open>Startup\<close>

lemma add_pairs_loop_True:
  "add_pairs_loop eng ps = (True, calls) \<Longrightarrow>
     calls = map (\<lambda>(id1, id2). Set_collision_Pair id1 id2) ps"
proof (induction ps arbitrary: calls)
  case Nil
  then show ?case by simp
next
  case (Cons p ps)
  obtain id1 id2 where p: "p = (id1, id2)" by (cases p)
  from Cons.prems p obtain rest where
    "add_pairs_loop eng ps = (True, rest)" "calls = Set_collision_Pair id1 id2 # rest"
    by (auto split: if_splits prod.splits)
  with Cons.IH p show ?case by simp
qed

lemma add_pairs_loop_verify_irrelevant:
  "add_pairs_loop (eng\<lparr>check_collision_Pair_raises := b\<rparr>) ps = add_pairs_loop eng ps"
  by (induction ps) auto

lemma tool_model_call_shape:
  "tool_model_call key index_key default_index tc = Some c \<Longrightarrow>
     \<exists>i a b r. c = Set_toolcollisionmodel i a b r"
  by (auto simp: tool_model_call_def split: option.splits bool.splits json.splits)

lemma set_tool_collision_models_True:
  "set_tool_collision_models eng tc = (True, calls) \<Longrightarrow>
     \<exists>i1 a1 b1 r1 i2 a2 b2 r2.
       calls = [Set_toolcollisionmodel i1 a1 b1 r1, Set_toolcollisionmodel i2 a2 b2 r2]"
proof -
  assume a: "set_tool_collision_models eng tc = (True, calls)"
  then obtain l where l: "tool_model_call ''L_tool'' ''L_tool_index'' 6 tc = Some l"
    by (cases "tool_model_call ''L_tool'' ''L_tool_index'' 6 tc")
      (simp_all add: set_tool_collision_models_def)
  with a obtain r where r: "tool_model_call ''R_tool'' ''R_tool_index'' 16 tc = Some r"
    by (cases "tool_model_call ''R_tool'' ''R_tool_index'' 16 tc")
      (simp_all add: set_tool_collision_models_def split: if_splits)
  from a l r have "calls = [l, r]"
    by (simp add: set_tool_collision_models_def split: if_splits)
  with tool_model_call_shape [OF l] tool_model_call_shape [OF r] show ?thesis
    by blast
qed

lemma set_tool_collision_models_verify_irrelevant:
  "set_tool_collision_models (eng\<lparr>check_collision_Pair_raises := b\<rparr>) tc =
     set_tool_collision_models eng tc"
proof -
  have "call_raises (eng\<lparr>check_collision_Pair_raises := b\<rparr>) c = call_raises eng c"
    if "tool_model_call key index_key default_index tc = Some c"
    for key index_key default_index c
    using tool_model_call_shape [OF that] by auto
  then show ?thesis
    unfolding set_tool_collision_models_def
    by (simp split: option.splits)
qed



lemma init_dual_arm_True:
  "init_dual_arm eng s = (True, s3, calls) \<Longrightarrow> \<exists>p jp. calls = [Init_dual_arm p jp]"
  by (auto simp: init_dual_arm_def Let_def split: option.splits)

lemma init_dual_arm_verify_irrelevant:
  "init_dual_arm (eng\<lparr>check_collision_Pair_raises := b\<rparr>) s = init_dual_arm eng s"
  by (simp add: init_dual_arm_def Let_def split: option.splits)

lemma check_collision_pairs_ignored:
  "(case check_collision_pairs eng of (ok6, t6) \<Rightarrow> f t6) = f [Check_collision_Pair]"
  by (simp add: check_collision_pairs_def)

lemma initialize_verify_irrelevant:
  "initialize fr (eng\<lparr>check_collision_Pair_raises := b\<rparr>) s = initialize fr eng s"
  unfolding initialize_def init_dual_arm_verify_irrelevant
    set_tool_collision_models_verify_irrelevant add_collision_pairs_def
    add_pairs_loop_verify_irrelevant check_collision_pairs_ignored
  by (rule refl)

lemma initialize_True_calls:
  assumes "initialize fr eng s = (True, s', calls)"
  obtains t3 t4 t5 s3 where
    "init_dual_arm eng s3 = (True, s', t3)"
    and "set_tool_collision_models eng (tool_config s') = (True, t4)"
    and "add_pairs_loop eng collision_pairs = (True, t5)"
    and "calls = t3 @ t4 @ t5 @ [Check_collision_Pair]"
proof -
  from assms obtain s1 where l: "load_config fr s = (True, s1)"
    by (auto simp: initialize_def split: prod.splits bool.splits)
  with assms obtain p where c: "Option.bind (config s1) convert_config = Some p"
    by (auto simp: initialize_def split: option.splits)
  from assms l c obtain s3 t3 where
    i: "init_dual_arm eng (s1\<lparr>init_params := Some p\<rparr>) = (True, s3, t3)"
    by (cases "init_dual_arm eng (s1\<lparr>init_params := Some p\<rparr>)")
      (auto simp: initialize_def split: bool.splits)
  from assms l c i obtain t4 where
    t: "set_tool_collision_models eng (tool_config s3) = (True, t4)"
    by (cases "set_tool_collision_models eng (tool_config s3)")
      (auto simp: initialize_def split: bool.splits)
  from assms l c i t obtain t5 where
    a: "add_pairs_loop eng collision_pairs = (True, t5)"
    by (cases "add_pairs_loop eng collision_pairs")
      (auto simp: initialize_def add_collision_pairs_def split: bool.splits)
  from assms l c i t a have "s' = s3" "calls = t3 @ t4 @ t5 @ [Check_collision_Pair]"
    by (simp_all add: initialize_def add_collision_pairs_def check_collision_pairs_def)
  with i t a show ?thesis by (intro that) simp_all
qed

text \<open>
  C8. When \<open>initialize\<close> returns True, the engine calls made are: the initialisation,
  the two tool models, then the thirteen pairs (-1,2) (-1,3) (-1,4) (-1,5) (-1,6) (-1,12)
  (-1,13) (-1,14) (-1,15) (-1,16) (1,16) (6,16) (6,11), each once and in this order, then
  the pair verification. Whether the verification raises changes nothing in what
  \<open>initialize\<close> returns: its failure does not abort startup.
\<close>

theorem collision_pairs_installed_once:
  "(\<forall>b. initialize fr (eng\<lparr>check_collision_Pair_raises := b\<rparr>) s = initialize fr eng s)
   \<and> (initialize fr eng s = (True, s', calls) \<longrightarrow>
        (\<exists>p jp i1 a1 b1 r1 i2 a2 b2 r2.
           calls =
             [Init_dual_arm p jp,
              Set_toolcollisionmodel i1 a1 b1 r1, Set_toolcollisionmodel i2 a2 b2 r2]
             @ map (\<lambda>(id1, id2). Set_collision_Pair id1 id2)
                 [(- 1, 2), (- 1, 3), (- 1, 4), (- 1, 5), (- 1, 6),
                  (- 1, 12), (- 1, 13), (- 1, 14), (- 1, 15), (- 1, 16),
                  (1, 16), (6, 16), (6, 11)]
             @ [Check_collision_Pair]))"
proof (intro conjI allI impI)
  fix b
  show "initialize fr (eng\<lparr>check_collision_Pair_raises := b\<rparr>) s = initialize fr eng s"
    by (rule initialize_verify_irrelevant)
next
  assume "initialize fr eng s = (True, s', calls)"
  then obtain t3 t4 t5 s3 where
    init: "init_dual_arm eng s3 = (True, s', t3)"
    and tool: "set_tool_collision_models eng (tool_config s') = (True, t4)"
    and pairs: "add_pairs_loop eng collision_pairs = (True, t5)"
    and calls: "calls = t3 @ t4 @ t5 @ [Check_collision_Pair]"
    by (rule initialize_True_calls)
  from init_dual_arm_True [OF init] obtain p jp where t3: "t3 = [Init_dual_arm p jp]"
    by (elim exE)
  from set_tool_collision_models_True [OF tool] obtain i1 a1 b1 r1 i2 a2 b2 r2 where
    t4: "t4 = [Set_toolcollisionmodel i1 a1 b1 r1, Set_toolcollisionmodel i2 a2 b2 r2]"
    by (elim exE)
  from pairs have t5: "t5 = map (\<lambda>(id1, id2). Set_collision_Pair id1 id2) collision_pairs"
    by (rule add_pairs_loop_True)
  have "calls =
             [Init_dual_arm p jp,
              Set_toolcollisionmodel i1 a1 b1 r1, Set_toolcollisionmodel i2 a2 b2 r2]
             @ map (\<lambda>(id1, id2). Set_collision_Pair id1 id2)
                 [(- 1, 2), (- 1, 3), (- 1, 4), (- 1, 5), (- 1, 6),
                  (- 1, 12), (- 1, 13), (- 1, 14), (- 1, 15), (- 1, 16),
                  (1, 16), (6, 16), (6, 11)]
             @ [Check_collision_Pair]"
    unfolding calls t3 t4 t5 collision_pairs_def by simp
  then show "\<exists>p jp i1 a1 b1 r1 i2 a2 b2 r2.
           calls =
             [Init_dual_arm p jp,
              Set_toolcollisionmodel i1 a1 b1 r1, Set_toolcollisionmodel i2 a2 b2 r2]
             @ map (\<lambda>(id1, id2). Set_collision_Pair id1 id2)
                 [(- 1, 2), (- 1, 3), (- 1, 4), (- 1, 5), (- 1, 6),
                  (- 1, 12), (- 1, 13), (- 1, 14), (- 1, 15), (- 1, 16),
                  (1, 16), (6, 16), (6, 11)]
             @ [Check_collision_Pair]"
    by - ((rule exI)+, assumption)
qed

lemma sample_converts:
  "\<exists>p. convert_config (snd (read_dual_arm_self_collision_model_from_json
                               (Parsed sample_document) new_DualArmColliderConfiguration)) = Some p"
  by (simp add: sample_loads convert_config_def build_lozenge_params_def
      build_capsule_params_def build_wrist_params_def extend_padded_def)

lemma sample_initializes:
  "fst (initialize (Parsed sample_document) sample_engine (new_CollisionDetectionServer (JObj [])))"
proof -
  obtain p where p: "convert_config (snd (read_dual_arm_self_collision_model_from_json
                       (Parsed sample_document) new_DualArmColliderConfiguration)) = Some p"
    using sample_converts by blast
  have l: "load_config (Parsed sample_document) (new_CollisionDetectionServer (JObj [])) =
             (True, (new_CollisionDetectionServer (JObj []))
                \<lparr>config := Some (snd (read_dual_arm_self_collision_model_from_json
                       (Parsed sample_document) new_DualArmColliderConfiguration))\<rparr>)"
    by (simp add: load_config_def sample_loads)
  have t: "set_tool_collision_models sample_engine (JObj []) =
             (True, [Set_toolcollisionmodel (JNum 6) (JArr [JNum 0, JNum 0, JNum 0])
                       (JArr [JNum 0, JNum 0, JNum 0]) (JNum (2 / 100)),
                     Set_toolcollisionmodel (JNum 16) (JArr [JNum 0, JNum 0, JNum 0])
                       (JArr [JNum 0, JNum 0, JNum 0]) (JNum (2 / 100))])"
    by (simp add: set_tool_collision_models_def tool_model_call_def sample_engine_def)
  obtain t5 where a: "add_collision_pairs sample_engine = (True, t5)"
    by (simp add: add_collision_pairs_def collision_pairs_def sample_engine_def)
  obtain s3 t3 where i:
    "init_dual_arm sample_engine
       ((new_CollisionDetectionServer (JObj []))
          \<lparr>config := Some (snd (read_dual_arm_self_collision_model_from_json
                 (Parsed sample_document) new_DualArmColliderConfiguration)),
           init_params := Some p\<rparr>) = (True, s3, t3)"
    "tool_config s3 = JObj []"
    by (simp add: init_dual_arm_def Let_def sample_engine_def new_CollisionDetectionServer_def)
  show ?thesis
    by (simp add: initialize_def l p i t a check_collision_pairs_def)
qed

theorem collision_pairs_installed_once_witness:
  "fst (initialize (Parsed sample_document) sample_engine (new_CollisionDetectionServer (JObj [])))
   \<and> (\<exists>p jp c1 c2.
         snd (snd (initialize (Parsed sample_document) sample_engine
                     (new_CollisionDetectionServer (JObj [])))) =
           [Init_dual_arm p jp, c1, c2,
            Set_collision_Pair (- 1) 2, Set_collision_Pair (- 1) 3, Set_collision_Pair (- 1) 4,
            Set_collision_Pair (- 1) 5, Set_collision_Pair (- 1) 6, Set_collision_Pair (- 1) 12,
            Set_collision_Pair (- 1) 13, Set_collision_Pair (- 1) 14, Set_collision_Pair (- 1) 15,
            Set_collision_Pair (- 1) 16, Set_collision_Pair 1 16, Set_collision_Pair 6 16,
            Set_collision_Pair 6 11, Check_collision_Pair])"
proof -
  let ?r = "initialize (Parsed sample_document) sample_engine (new_CollisionDetectionServer (JObj []))"
  have ok: "fst ?r"
    by (rule sample_initializes)
  then have "?r = (True, fst (snd ?r), snd (snd ?r))"
    by (simp add: prod_eq_iff)
  with collision_pairs_installed_once
         [of "Parsed sample_document" sample_engine "new_CollisionDetectionServer (JObj [])"
             "fst (snd ?r)" "snd (snd ?r)"]
  obtain p jp i1 a1 b1 r1 i2 a2 b2 r2 where
    "snd (snd ?r) =
       [Init_dual_arm p jp,
        Set_toolcollisionmodel i1 a1 b1 r1, Set_toolcollisionmodel i2 a2 b2 r2]
       @ map (\<lambda>(id1, id2). Set_collision_Pair id1 id2)
           [(- 1, 2), (- 1, 3), (- 1, 4), (- 1, 5), (- 1, 6),
            (- 1, 12), (- 1, 13), (- 1, 14), (- 1, 15), (- 1, 16),
            (1, 16), (6, 16), (6, 11)]
       @ [Check_collision_Pair]"
    by (elim conjE impE exE) simp_all
  then have "snd (snd ?r) =
           [Init_dual_arm p jp, Set_toolcollisionmodel i1 a1 b1 r1,
            Set_toolcollisionmodel i2 a2 b2 r2,
            Set_collision_Pair (- 1) 2, Set_collision_Pair (- 1) 3, Set_collision_Pair (- 1) 4,
            Set_collision_Pair (- 1) 5, Set_collision_Pair (- 1) 6, Set_collision_Pair (- 1) 12,
            Set_collision_Pair (- 1) 13, Set_collision_Pair (- 1) 14, Set_collision_Pair (- 1) 15,
            Set_collision_Pair (- 1) 16, Set_collision_Pair 1 16, Set_collision_Pair 6 16,
            Set_collision_Pair 6 11, Check_collision_Pair]"
    by simp
  then have "\<exists>p jp c1 c2. snd (snd ?r) =
           [Init_dual_arm p jp, c1, c2,
            Set_collision_Pair (- 1) 2, Set_collision_Pair (- 1) 3, Set_collision_Pair (- 1) 4,
            Set_collision_Pair (- 1) 5, Set_collision_Pair (- 1) 6, Set_collision_Pair (- 1) 12,
            Set_collision_Pair (- 1) 13, Set_collision_Pair (- 1) 14, Set_collision_Pair (- 1) 15,
            Set_collision_Pair (- 1) 16, Set_collision_Pair 1 16, Set_collision_Pair 6 16,
            Set_collision_Pair 6 11, Check_collision_Pair]"
    by - ((rule exI)+, assumption)
  with ok show ?thesis by (rule conjI)
qed

end
